theory Spec2Isabelle
  imports
    Complex_Main
    "HOL-Library.Multiset"
    "HOL-Library.Product_Lexorder"
    "HOL-Library.List_Lexorder"
    "HOL-Library.Char_ord"
begin

section \<open>Values of the request\<close>

text \<open>
  The handlers of \<^verbatim>\<open>src/server/index.ts\<close> read \<^verbatim>\<open>req.body\<close>, the value
  that \<^verbatim>\<open>express.json()\<close> parsed, with no validation. The model keeps the
  JavaScript value as it is: \<open>JUndefined\<close> is what reading a missing property gives.
  Numbers are reals (every finite double is one; JSON has no NaN and no infinity).
\<close>

datatype jsval =
    JUndefined
  | JNull
  | JBool bool
  | JNum real
  | JStr string
  | JArr "jsval list"
  | JObj "(string \<times> jsval) list"

datatype error = StoreError | TypeError

text \<open>The operand test of \<^verbatim>\<open>secoes && ...\<close>.\<close>

fun truthy :: "jsval \<Rightarrow> bool" where
  "truthy JUndefined = False"
| "truthy JNull = False"
| "truthy (JBool b) = b"
| "truthy (JNum x) = (x \<noteq> 0)"
| "truthy (JStr s) = (s \<noteq> [])"
| "truthy (JArr xs) = True"
| "truthy (JObj kvs) = True"

text \<open>\<^verbatim>\<open>Array.isArray\<close>, and the elements that \<^verbatim>\<open>for (const secao of secoes)\<close> visits.\<close>

fun isArray :: "jsval \<Rightarrow> bool" where
  "isArray (JArr xs) = True"
| "isArray v = False"

fun elements :: "jsval \<Rightarrow> jsval list" where
  "elements (JArr xs) = xs"
| "elements v = []"

text \<open>
  Reading a property, as in \<^verbatim>\<open>secao.ordem\<close> and in the destructuring of
  \<^verbatim>\<open>req.body\<close>: on \<^verbatim>\<open>null\<close> and \<^verbatim>\<open>undefined\<close> it throws a TypeError, on an
  object it gives the member or \<^verbatim>\<open>undefined\<close>, on any other value it gives
  \<^verbatim>\<open>undefined\<close> (for the property names the handlers read, none of which is
  inherited from a prototype). An object is the list of its members; where a name is
  bound twice the first binding is the member.
\<close>

fun js_get :: "jsval \<Rightarrow> string \<Rightarrow> error + jsval" where
  "js_get JUndefined k = Inl TypeError"
| "js_get JNull k = Inl TypeError"
| "js_get (JObj kvs) k = (case map_of kvs k of None \<Rightarrow> Inr JUndefined | Some v \<Rightarrow> Inr v)"
| "js_get v k = Inr JUndefined"

text \<open>
  \<^verbatim>\<open>const { data, dia_semana, foco_tecnico, secoes } = req.body\<close>
\<close>

definition destructure :: "jsval \<Rightarrow> error + (jsval \<times> jsval \<times> jsval \<times> jsval)" where
  "destructure body =
     (case js_get body ''data'' of
        Inl e \<Rightarrow> Inl e
      | Inr data \<Rightarrow>
          (case js_get body ''dia_semana'' of
             Inl e \<Rightarrow> Inl e
           | Inr dia_semana \<Rightarrow>
               (case js_get body ''foco_tecnico'' of
                  Inl e \<Rightarrow> Inl e
                | Inr foco_tecnico \<Rightarrow>
                    (case js_get body ''secoes'' of
                       Inl e \<Rightarrow> Inl e
                     | Inr secoes \<Rightarrow> Inr (data, dia_semana, foco_tecnico, secoes)))))"

text \<open>
  The four properties of one element of \<^verbatim>\<open>secoes\<close> that the INSERT binds, read in
  the order of the parameter array.
\<close>

definition secao_params :: "jsval \<Rightarrow> error + (jsval \<times> jsval \<times> jsval \<times> jsval)" where
  "secao_params secao =
     (case js_get secao ''nome_secao'' of
        Inl e \<Rightarrow> Inl e
      | Inr nome_secao \<Rightarrow>
          (case js_get secao ''duracao_minutos'' of
             Inl e \<Rightarrow> Inl e
           | Inr duracao_minutos \<Rightarrow>
               (case js_get secao ''conteudo'' of
                  Inl e \<Rightarrow> Inl e
                | Inr conteudo \<Rightarrow>
                    (case js_get secao ''ordem'' of
                       Inl e \<Rightarrow> Inl e
                     | Inr ordem \<Rightarrow> Inr (nome_secao, duracao_minutos, conteudo, ordem)))))"

section \<open>The store\<close>

text \<open>
  Modelled from the spec: the relational store behind \<^verbatim>\<open>pool.query\<close> and the schema
  of its two tables, which are not in the repository. A table is the list of its rows
  in insertion order. The spec's data model gives the columns; \<open>id\<close> is an integer
  primary key generated by the store (a sequence; an INSERT whose generated key is
  already in the table fails and stores nothing), the timestamps are what \<^verbatim>\<open>NOW()\<close>
  gave, and every other column keeps the value bound to its parameter. The path
  parameter \<^verbatim>\<open>:id\<close> is the integer the store reads from it.
\<close>

record treino =
  tr_id :: int
  tr_data :: jsval
  tr_dia_semana :: jsval
  tr_foco_tecnico :: jsval
  tr_criado_em :: "nat option"
  tr_atualizado_em :: "nat option"

record secao =
  sc_id :: int
  sc_treino_id :: int
  sc_nome_secao :: jsval
  sc_duracao_minutos :: jsval
  sc_conteudo :: jsval
  sc_ordem :: jsval
  sc_criado_em :: "nat option"

text \<open>
  \<open>faults\<close> says, for each query still to come, whether the store fails it
  (connection lost, constraint violated, parameter rejected); past the end of the list
  no query fails. \<open>clock\<close> is the time \<^verbatim>\<open>NOW()\<close> reads.
\<close>

record store =
  treinos :: "treino list"
  secoes_treino :: "secao list"
  treinos_id_seq :: int
  secoes_treino_id_seq :: int
  clock :: nat
  faults :: "bool list"

text \<open>The driver sends \<^verbatim>\<open>undefined\<close> as SQL NULL; every other value as it is.\<close>

fun prepareValue :: "jsval \<Rightarrow> jsval" where
  "prepareValue JUndefined = JNull"
| "prepareValue v = v"

text \<open>
  The order of \<^verbatim>\<open>ORDER BY\<close> on a column: numbers by value, strings (dates in ISO
  form among them) lexicographically, NULL after every value. A column of the store
  holds values of one type; the order between values of different types is fixed here
  only to make the key total. Rows are sorted by this key with \<open>sort_key\<close>, and
  \<^verbatim>\<open>DESC\<close> is the reverse list (NULL first); SQL leaves the order of rows with equal
  keys open.
\<close>

fun sql_key :: "jsval \<Rightarrow> nat \<times> real \<times> string" where
  "sql_key (JNum x) = (0, x, [])"
| "sql_key (JStr s) = (1, 0, s)"
| "sql_key (JBool b) = (2, if b then 1 else 0, [])"
| "sql_key (JArr xs) = (3, 0, [])"
| "sql_key (JObj kvs) = (3, 0, [])"
| "sql_key JNull = (4, 0, [])"
| "sql_key JUndefined = (4, 0, [])"

text \<open>
  One call of \<^verbatim>\<open>await pool.query(...)\<close>: the store fails the query when the fault
  schedule says so and leaves the tables as they are; otherwise it runs the statement.
\<close>

definition query :: "(store \<Rightarrow> (error + 'a) \<times> store) \<Rightarrow> store \<Rightarrow> (error + 'a) \<times> store" where
  "query stmt s =
     (case faults s of
        [] \<Rightarrow> stmt s
      | f # fs \<Rightarrow>
          (if f then (Inl StoreError, s\<lparr>faults := fs\<rparr>) else stmt (s\<lparr>faults := fs\<rparr>)))"

text \<open>
  Whether the store fails the next query, and the store once that query has been
  answered or failed (one entry of the schedule is used).
\<close>

definition fails_next :: "store \<Rightarrow> bool" where
  "fails_next s = (case faults s of [] \<Rightarrow> False | f # fs \<Rightarrow> f)"

definition advance :: "store \<Rightarrow> store" where
  "advance s = s\<lparr>faults := tl (faults s)\<rparr>"

text \<open>\<^verbatim>\<open>SELECT * FROM treinos ORDER BY data DESC\<close>\<close>

definition select_treinos :: "store \<Rightarrow> (error + treino list) \<times> store" where
  "select_treinos = query (\<lambda>s. (Inr (rev (sort_key (\<lambda>r. sql_key (tr_data r)) (treinos s))), s))"

text \<open>\<^verbatim>\<open>SELECT * FROM treinos WHERE id = $1\<close>\<close>

definition select_treino :: "int \<Rightarrow> store \<Rightarrow> (error + treino list) \<times> store" where
  "select_treino i = query (\<lambda>s. (Inr (filter (\<lambda>r. tr_id r = i) (treinos s)), s))"

text \<open>
  \<^verbatim>\<open>INSERT INTO treinos (data, dia_semana, foco_tecnico, criado_em, atualizado_em)
  VALUES ($1, $2, $3, NOW(), NOW()) RETURNING *\<close>
\<close>

definition insert_treino :: "jsval \<Rightarrow> jsval \<Rightarrow> jsval \<Rightarrow> store \<Rightarrow> (error + treino list) \<times> store" where
  "insert_treino d ds ft = query (\<lambda>s.
     let i = treinos_id_seq s;
         s1 = s\<lparr>treinos_id_seq := i + 1\<rparr>;
         row = \<lparr>tr_id = i, tr_data = prepareValue d, tr_dia_semana = prepareValue ds,
                tr_foco_tecnico = prepareValue ft,
                tr_criado_em = Some (clock s), tr_atualizado_em = Some (clock s)\<rparr>
     in if i \<in> tr_id ` set (treinos s) then (Inl StoreError, s1)
        else (Inr [row], s1\<lparr>treinos := treinos s @ [row]\<rparr>))"

text \<open>
  \<^verbatim>\<open>INSERT INTO secoes_treino (treino_id, nome_secao, duracao_minutos, conteudo, ordem,
  criado_em) VALUES ($1, $2, $3, $4, $5, NOW())\<close>
\<close>

definition insert_secao ::
  "int \<Rightarrow> jsval \<Rightarrow> jsval \<Rightarrow> jsval \<Rightarrow> jsval \<Rightarrow> store \<Rightarrow> (error + secao list) \<times> store" where
  "insert_secao tid n d c ordv = query (\<lambda>s.
     let i = secoes_treino_id_seq s;
         s1 = s\<lparr>secoes_treino_id_seq := i + 1\<rparr>;
         row = \<lparr>sc_id = i, sc_treino_id = tid, sc_nome_secao = prepareValue n,
                sc_duracao_minutos = prepareValue d, sc_conteudo = prepareValue c,
                sc_ordem = prepareValue ordv, sc_criado_em = Some (clock s)\<rparr>
     in if i \<in> sc_id ` set (secoes_treino s) then (Inl StoreError, s1)
        else (Inr [], s1\<lparr>secoes_treino := secoes_treino s @ [row]\<rparr>))"

text \<open>
  \<^verbatim>\<open>UPDATE treinos SET data = $1, dia_semana = $2, foco_tecnico = $3,
  atualizado_em = NOW() WHERE id = $4 RETURNING *\<close>
\<close>

definition set_treino :: "jsval \<Rightarrow> jsval \<Rightarrow> jsval \<Rightarrow> nat \<Rightarrow> treino \<Rightarrow> treino" where
  "set_treino d ds ft t r =
     r\<lparr>tr_data := prepareValue d, tr_dia_semana := prepareValue ds,
       tr_foco_tecnico := prepareValue ft, tr_atualizado_em := Some t\<rparr>"

definition update_treino :: "jsval \<Rightarrow> jsval \<Rightarrow> jsval \<Rightarrow> int \<Rightarrow> store \<Rightarrow> (error + treino list) \<times> store" where
  "update_treino d ds ft i = query (\<lambda>s.
     (Inr (map (set_treino d ds ft (clock s)) (filter (\<lambda>r. tr_id r = i) (treinos s))),
      s\<lparr>treinos := map (\<lambda>r. if tr_id r = i then set_treino d ds ft (clock s) r else r) (treinos s)\<rparr>))"

text \<open>\<^verbatim>\<open>DELETE FROM secoes_treino WHERE treino_id = $1\<close>\<close>

definition delete_secoes :: "int \<Rightarrow> store \<Rightarrow> (error + secao list) \<times> store" where
  "delete_secoes i = query (\<lambda>s.
     (Inr [], s\<lparr>secoes_treino := filter (\<lambda>r. sc_treino_id r \<noteq> i) (secoes_treino s)\<rparr>))"

text \<open>\<^verbatim>\<open>DELETE FROM treinos WHERE id = $1 RETURNING *\<close>\<close>

definition delete_treino_row :: "int \<Rightarrow> store \<Rightarrow> (error + treino list) \<times> store" where
  "delete_treino_row i = query (\<lambda>s.
     (Inr (filter (\<lambda>r. tr_id r = i) (treinos s)),
      s\<lparr>treinos := filter (\<lambda>r. tr_id r \<noteq> i) (treinos s)\<rparr>))"

text \<open>\<^verbatim>\<open>SELECT * FROM secoes_treino WHERE treino_id = $1 ORDER BY ordem\<close>\<close>

definition select_secoes :: "int \<Rightarrow> store \<Rightarrow> (error + secao list) \<times> store" where
  "select_secoes i = query (\<lambda>s.
     (Inr (sort_key (\<lambda>r. sql_key (sc_ordem r)) (filter (\<lambda>r. sc_treino_id r = i) (secoes_treino s))), s))"

section \<open>The responses\<close>

datatype payload =
    PError string
  | PMessage string
  | PTreino treino
  | PTreinos "treino list"
  | PSecoes "secao list"

type_synonym response = "nat \<times> payload"

text \<open>\<^verbatim>\<open>res.json(x)\<close> answers 200; \<^verbatim>\<open>res.status(c).json(x)\<close> answers \<open>c\<close>.\<close>

definition json :: "payload \<Rightarrow> response" where
  "json p = (200, p)"

definition status_json :: "nat \<Rightarrow> payload \<Rightarrow> response" where
  "status_json c p = (c, p)"

section \<open>The route handlers\<close>

text \<open>\<^verbatim>\<open>app.get('/api/treinos')\<close>\<close>

definition get_treinos :: "store \<Rightarrow> response \<times> store" where
  "get_treinos s =
     (case select_treinos s of
        (Inl e, s1) \<Rightarrow> (status_json 500 (PError ''Failed to fetch treinos''), s1)
      | (Inr rows, s1) \<Rightarrow> (json (PTreinos rows), s1))"

text \<open>\<^verbatim>\<open>app.get('/api/treinos/:id')\<close>\<close>

definition get_treino :: "int \<Rightarrow> store \<Rightarrow> response \<times> store" where
  "get_treino i s =
     (case select_treino i s of
        (Inl e, s1) \<Rightarrow> (status_json 500 (PError ''Failed to fetch treino''), s1)
      | (Inr rows, s1) \<Rightarrow>
          (case rows of
             [] \<Rightarrow> (status_json 404 (PError ''Treino not found''), s1)
           | row # rest \<Rightarrow> (json (PTreino row), s1)))"

text \<open>
  The loop \<^verbatim>\<open>for (const secao of secoes) { await pool.query(INSERT ...) }\<close>: the first
  element that throws (a TypeError on reading a property, or a failed INSERT) ends
  the loop; the rows inserted before it stay.
\<close>

fun insert_secoes :: "int \<Rightarrow> jsval list \<Rightarrow> store \<Rightarrow> (error + unit) \<times> store" where
  "insert_secoes tid [] s = (Inr (), s)"
| "insert_secoes tid (secao # rest) s =
     (case secao_params secao of
        Inl e \<Rightarrow> (Inl e, s)
      | Inr (n, d, c, ordv) \<Rightarrow>
          (case insert_secao tid n d c ordv s of
             (Inl e, s1) \<Rightarrow> (Inl e, s1)
           | (Inr rows, s1) \<Rightarrow> insert_secoes tid rest s1))"

text \<open>\<^verbatim>\<open>if (secoes && Array.isArray(secoes)) { for ... }\<close>\<close>

definition insert_sections :: "int \<Rightarrow> jsval \<Rightarrow> store \<Rightarrow> (error + unit) \<times> store" where
  "insert_sections tid secoes s =
     (if truthy secoes \<and> isArray secoes then insert_secoes tid (elements secoes) s
      else (Inr (), s))"

text \<open>
  \<^verbatim>\<open>app.post('/api/treinos')\<close>. Reading \<^verbatim>\<open>result.rows[0].id\<close> throws when the INSERT
  returned no row; the destructuring of the body is inside the \<^verbatim>\<open>try\<close> as well.
\<close>

definition post_treino :: "jsval \<Rightarrow> store \<Rightarrow> response \<times> store" where
  "post_treino body s =
     (case destructure body of
        Inl e \<Rightarrow> (status_json 500 (PError ''Failed to create treino''), s)
      | Inr (data, dia_semana, foco_tecnico, secoes) \<Rightarrow>
          (case insert_treino data dia_semana foco_tecnico s of
             (Inl e, s1) \<Rightarrow> (status_json 500 (PError ''Failed to create treino''), s1)
           | (Inr [], s1) \<Rightarrow> (status_json 500 (PError ''Failed to create treino''), s1)
           | (Inr (row # rest), s1) \<Rightarrow>
               (case insert_sections (tr_id row) secoes s1 of
                  (Inl e, s2) \<Rightarrow> (status_json 500 (PError ''Failed to create treino''), s2)
                | (Inr u, s2) \<Rightarrow> (status_json 201 (PTreino row), s2))))"

text \<open>
  \<^verbatim>\<open>app.put('/api/treinos/:id')\<close>. The sections are inserted under the path
  parameter \<^verbatim>\<open>id\<close>, not under the id of the returned row.
\<close>

definition put_treino :: "int \<Rightarrow> jsval \<Rightarrow> store \<Rightarrow> response \<times> store" where
  "put_treino i body s =
     (case destructure body of
        Inl e \<Rightarrow> (status_json 500 (PError ''Failed to update treino''), s)
      | Inr (data, dia_semana, foco_tecnico, secoes) \<Rightarrow>
          (case update_treino data dia_semana foco_tecnico i s of
             (Inl e, s1) \<Rightarrow> (status_json 500 (PError ''Failed to update treino''), s1)
           | (Inr [], s1) \<Rightarrow> (status_json 404 (PError ''Treino not found''), s1)
           | (Inr (row # rest), s1) \<Rightarrow>
               (case delete_secoes i s1 of
                  (Inl e, s2) \<Rightarrow> (status_json 500 (PError ''Failed to update treino''), s2)
                | (Inr dels, s2) \<Rightarrow>
                    (case insert_sections i secoes s2 of
                       (Inl e, s3) \<Rightarrow> (status_json 500 (PError ''Failed to update treino''), s3)
                     | (Inr u, s3) \<Rightarrow> (json (PTreino row), s3)))))"

text \<open>\<^verbatim>\<open>app.delete('/api/treinos/:id')\<close>\<close>

definition delete_treino :: "int \<Rightarrow> store \<Rightarrow> response \<times> store" where
  "delete_treino i s =
     (case delete_secoes i s of
        (Inl e, s1) \<Rightarrow> (status_json 500 (PError ''Failed to delete treino''), s1)
      | (Inr dels, s1) \<Rightarrow>
          (case delete_treino_row i s1 of
             (Inl e, s2) \<Rightarrow> (status_json 500 (PError ''Failed to delete treino''), s2)
           | (Inr [], s2) \<Rightarrow> (status_json 404 (PError ''Treino not found''), s2)
           | (Inr (row # rest), s2) \<Rightarrow> (json (PMessage ''Treino deleted successfully''), s2)))"

text \<open>\<^verbatim>\<open>app.get('/api/treinos/:id/secoes')\<close>\<close>

definition get_secoes :: "int \<Rightarrow> store \<Rightarrow> response \<times> store" where
  "get_secoes i s =
     (case select_secoes i s of
        (Inl e, s1) \<Rightarrow> (status_json 500 (PError ''Failed to fetch sections''), s1)
      | (Inr rows, s1) \<Rightarrow> (json (PSecoes rows), s1))"

section \<open>Notions used by the statements\<close>

text \<open>What a handler run gave: the status sent, the payload sent, the store left.\<close>

definition status :: "response \<times> store \<Rightarrow> nat" where
  "status run = fst (fst run)"

definition sent :: "response \<times> store \<Rightarrow> payload" where
  "sent run = snd (fst run)"

definition after :: "response \<times> store \<Rightarrow> store" where
  "after run = snd run"

text \<open>\<^verbatim>\<open>null\<close> or \<^verbatim>\<open>undefined\<close>: the values on which reading a property throws.\<close>

definition nullish :: "jsval \<Rightarrow> bool" where
  "nullish v = (v = JNull \<or> v = JUndefined)"

text \<open>
  What a request submits, read off the JSON value itself and not through the handler:
  the value a body or a section element carries under a name, as the column value it
  stands for (NULL when the name is missing or the value is no object), and the
  elements of the body's \<^verbatim>\<open>secoes\<close> (none when that is not an array).
\<close>

fun submitted :: "jsval \<Rightarrow> string \<Rightarrow> jsval" where
  "submitted (JObj kvs) k =
     (case map_of kvs k of None \<Rightarrow> JNull | Some JUndefined \<Rightarrow> JNull | Some v \<Rightarrow> v)"
| "submitted v k = JNull"

definition submitted_secoes :: "jsval \<Rightarrow> jsval list" where
  "submitted_secoes body = (case submitted body ''secoes'' of JArr xs \<Rightarrow> xs | v \<Rightarrow> [])"

text \<open>
  The workout row a \<^verbatim>\<open>POST\<close> of \<open>body\<close> is to create on store \<open>s\<close>: the key the
  sequence gives, the three submitted fields, both timestamps at the time of the
  request.
\<close>

definition workout_row :: "jsval \<Rightarrow> store \<Rightarrow> treino" where
  "workout_row body s =
     \<lparr>tr_id = treinos_id_seq s, tr_data = submitted body ''data'',
      tr_dia_semana = submitted body ''dia_semana'',
      tr_foco_tecnico = submitted body ''foco_tecnico'',
      tr_criado_em = Some (clock s), tr_atualizado_em = Some (clock s)\<rparr>"

text \<open>
  The section row for a submitted element \<open>x\<close> of workout \<open>tid\<close>, stored at time \<open>t\<close>
  under key \<open>key\<close>, and the rows for a list of elements, in input order, under
  consecutive keys.
\<close>

definition section_row :: "int \<Rightarrow> nat \<Rightarrow> int \<Rightarrow> jsval \<Rightarrow> secao" where
  "section_row tid t key x =
     \<lparr>sc_id = key, sc_treino_id = tid, sc_nome_secao = submitted x ''nome_secao'',
      sc_duracao_minutos = submitted x ''duracao_minutos'',
      sc_conteudo = submitted x ''conteudo'', sc_ordem = submitted x ''ordem'',
      sc_criado_em = Some t\<rparr>"

fun section_rows :: "int \<Rightarrow> nat \<Rightarrow> int \<Rightarrow> jsval list \<Rightarrow> secao list" where
  "section_rows tid t key [] = []"
| "section_rows tid t key (x # xs) = section_row tid t key x # section_rows tid t (key + 1) xs"

text \<open>
  How many of the submitted elements are stored before the first failure, given the
  fault schedule \<open>fs\<close> for the section INSERTs, the next key \<open>key\<close> and the keys
  \<open>ids\<close> in use: an element fails when it is \<^verbatim>\<open>null\<close> or \<^verbatim>\<open>undefined\<close>, when the store
  fails its INSERT, or when its key is taken. The count is the length of the list
  exactly when no element fails.
\<close>

fun count_stored :: "jsval list \<Rightarrow> bool list \<Rightarrow> int \<Rightarrow> int set \<Rightarrow> nat" where
  "count_stored [] fs key ids = 0"
| "count_stored (x # xs) fs key ids =
     (if nullish x \<or> (case fs of [] \<Rightarrow> False | f # fs' \<Rightarrow> f) \<or> key \<in> ids then 0
      else Suc (count_stored xs (tl fs) (key + 1) (insert key ids)))"

text \<open>
  A store that accepts what the handlers send: it fails no query to come, and each
  sequence is ahead of every key of its table, so that a generated key is free.
\<close>

definition accepts :: "store \<Rightarrow> bool" where
  "accepts s = (list_all (\<lambda>f. \<not> f) (faults s) \<and>
     list_all (\<lambda>r. tr_id r < treinos_id_seq s) (treinos s) \<and>
     list_all (\<lambda>r. sc_id r < secoes_treino_id_seq s) (secoes_treino s))"

text \<open>
  A payload the handler can store: the body can be read, and so can each submitted
  element of \<^verbatim>\<open>secoes\<close>. The source validates nothing; this is the condition under
  which no property read throws.
\<close>

definition valid_payload :: "jsval \<Rightarrow> bool" where
  "valid_payload body =
     (\<not> nullish body \<and> list_all (\<lambda>x. \<not> nullish x) (submitted_secoes body))"

text \<open>
  The row that the workout INSERT stores from the values bound to it, and the store
  once it has stored it.
\<close>

definition new_treino :: "jsval \<Rightarrow> jsval \<Rightarrow> jsval \<Rightarrow> store \<Rightarrow> treino" where
  "new_treino d ds ft s =
     \<lparr>tr_id = treinos_id_seq s, tr_data = prepareValue d, tr_dia_semana = prepareValue ds,
      tr_foco_tecnico = prepareValue ft, tr_criado_em = Some (clock s),
      tr_atualizado_em = Some (clock s)\<rparr>"

definition with_treino :: "jsval \<Rightarrow> jsval \<Rightarrow> jsval \<Rightarrow> store \<Rightarrow> store" where
  "with_treino d ds ft s =
     (advance s)\<lparr>treinos_id_seq := treinos_id_seq s + 1,
        treinos := treinos s @ [new_treino d ds ft s]\<rparr>"

text \<open>
  A store for the examples: the three workouts of the spec's ordering example, in the
  order they were inserted, and three sections of workout 1 stored out of order.
\<close>

definition treino1 :: treino where
  "treino1 = \<lparr>tr_id = 1, tr_data = JStr ''2024-01-01'', tr_dia_semana = JStr ''segunda'',
     tr_foco_tecnico = JStr ''guarda'', tr_criado_em = Some 5, tr_atualizado_em = Some 5\<rparr>"

definition treino2 :: treino where
  "treino2 = \<lparr>tr_id = 2, tr_data = JStr ''2024-03-01'', tr_dia_semana = JStr ''sexta'',
     tr_foco_tecnico = JStr ''passagem'', tr_criado_em = Some 6, tr_atualizado_em = Some 6\<rparr>"

definition treino3 :: treino where
  "treino3 = \<lparr>tr_id = 3, tr_data = JStr ''2024-02-01'', tr_dia_semana = JStr ''quinta'',
     tr_foco_tecnico = JStr ''queda'', tr_criado_em = Some 7, tr_atualizado_em = Some 7\<rparr>"

definition secao1 :: secao where
  "secao1 = \<lparr>sc_id = 1, sc_treino_id = 1, sc_nome_secao = JStr ''tecnica'',
     sc_duracao_minutos = JNum 30, sc_conteudo = JStr ''b'', sc_ordem = JNum 2,
     sc_criado_em = Some 5\<rparr>"

definition secao2 :: secao where
  "secao2 = \<lparr>sc_id = 2, sc_treino_id = 1, sc_nome_secao = JStr ''rola'',
     sc_duracao_minutos = JNum 20, sc_conteudo = JStr ''c'', sc_ordem = JNum 3,
     sc_criado_em = Some 5\<rparr>"

definition secao3 :: secao where
  "secao3 = \<lparr>sc_id = 3, sc_treino_id = 1, sc_nome_secao = JStr ''aquecimento'',
     sc_duracao_minutos = JNum 10, sc_conteudo = JStr ''a'', sc_ordem = JNum 1,
     sc_criado_em = Some 5\<rparr>"

definition secao4 :: secao where
  "secao4 = \<lparr>sc_id = 4, sc_treino_id = 2, sc_nome_secao = JStr ''drills'',
     sc_duracao_minutos = JNum 15, sc_conteudo = JStr ''d'', sc_ordem = JNum 1,
     sc_criado_em = Some 6\<rparr>"

definition example_store :: store where
  "example_store = \<lparr>treinos = [treino1, treino2, treino3],
     secoes_treino = [secao1, secao2, secao3, secao4],
     treinos_id_seq = 4, secoes_treino_id_seq = 5, clock = 10, faults = []\<rparr>"

text \<open>A request body with one section, and the element it carries.\<close>

definition example_secao :: jsval where
  "example_secao = JObj [(''nome_secao'', JStr ''sparring''), (''duracao_minutos'', JNum 25),
     (''conteudo'', JStr ''e''), (''ordem'', JNum 1)]"

definition example_body :: jsval where
  "example_body = JObj [(''data'', JStr ''2024-04-01''), (''dia_semana'', JStr ''segunda''),
     (''foco_tecnico'', JStr ''raspagem''), (''secoes'', JArr [example_secao])]"

text \<open>
  A body with two sections, and a store that answers two queries and fails the third.
\<close>

definition example_body2 :: jsval where
  "example_body2 = JObj [(''data'', JStr ''2024-04-01''), (''dia_semana'', JStr ''segunda''),
     (''foco_tecnico'', JStr ''raspagem''), (''secoes'', JArr [example_secao, example_secao])]"

definition faulty_store :: store where
  "faulty_store = example_store\<lparr>faults := [False, False, True]\<rparr>"

text \<open>
  The rows that store \<open>example_secao\<close> under key 5 at time 10, for workout 1 and for
  the new workout 4.
\<close>

definition secao5 :: secao where
  "secao5 = \<lparr>sc_id = 5, sc_treino_id = 1, sc_nome_secao = JStr ''sparring'',
     sc_duracao_minutos = JNum 25, sc_conteudo = JStr ''e'', sc_ordem = JNum 1,
     sc_criado_em = Some 10\<rparr>"

definition secao5_of_4 :: secao where
  "secao5_of_4 = \<lparr>sc_id = 5, sc_treino_id = 4, sc_nome_secao = JStr ''sparring'',
     sc_duracao_minutos = JNum 25, sc_conteudo = JStr ''e'', sc_ordem = JNum 1,
     sc_criado_em = Some 10\<rparr>"

definition treino4 :: treino where
  "treino4 = \<lparr>tr_id = 4, tr_data = JStr ''2024-04-01'', tr_dia_semana = JStr ''segunda'',
     tr_foco_tecnico = JStr ''raspagem'', tr_criado_em = Some 10, tr_atualizado_em = Some 10\<rparr>"

section \<open>The store's statements, one query at a time\<close>

lemmas example_defs =
  example_store_def example_body_def example_secao_def
  treino1_def treino2_def treino3_def treino4_def example_body2_def faulty_store_def
  secao5_def secao5_of_4_def secao1_def secao2_def secao3_def secao4_def

lemmas handler_defs =
  status_def sent_def after_def json_def status_json_def query_def Let_def
  destructure_def secao_params_def insert_sections_def
  select_treinos_def select_treino_def select_secoes_def insert_treino_def insert_secao_def
  update_treino_def set_treino_def delete_secoes_def delete_treino_row_def


lemma query_eq:
  "query stmt s = (if fails_next s then (Inl StoreError, advance s) else stmt (advance s))"
proof (cases "faults s")
  case Nil
  then have "advance s = s" by (simp add: advance_def)
  with Nil show ?thesis by (simp add: query_def fails_next_def)
next
  case (Cons f fs)
  then show ?thesis by (simp add: query_def fails_next_def advance_def)
qed

lemma advance_simps [simp]:
  "treinos (advance s) = treinos s"
  "secoes_treino (advance s) = secoes_treino s"
  "clock (advance s) = clock s"
  "treinos_id_seq (advance s) = treinos_id_seq s"
  "secoes_treino_id_seq (advance s) = secoes_treino_id_seq s"
  "faults (advance s) = tl (faults s)"
  by (simp_all add: advance_def)

lemma insert_treino_eq:
  "insert_treino d ds ft s =
     (if fails_next s then (Inl StoreError, advance s)
      else if treinos_id_seq s \<in> tr_id ` set (treinos s)
      then (Inl StoreError, (advance s)\<lparr>treinos_id_seq := treinos_id_seq s + 1\<rparr>)
      else (Inr [\<lparr>tr_id = treinos_id_seq s, tr_data = prepareValue d, tr_dia_semana = prepareValue ds,
                  tr_foco_tecnico = prepareValue ft, tr_criado_em = Some (clock s),
                  tr_atualizado_em = Some (clock s)\<rparr>],
            (advance s)\<lparr>treinos_id_seq := treinos_id_seq s + 1,
              treinos := treinos s @
                [\<lparr>tr_id = treinos_id_seq s, tr_data = prepareValue d, tr_dia_semana = prepareValue ds,
                  tr_foco_tecnico = prepareValue ft, tr_criado_em = Some (clock s),
                  tr_atualizado_em = Some (clock s)\<rparr>]\<rparr>))"
  by (simp add: insert_treino_def query_eq Let_def)

lemma insert_secao_eq:
  "insert_secao tid n d c ordv s =
     (if fails_next s then (Inl StoreError, advance s)
      else if secoes_treino_id_seq s \<in> sc_id ` set (secoes_treino s)
      then (Inl StoreError, (advance s)\<lparr>secoes_treino_id_seq := secoes_treino_id_seq s + 1\<rparr>)
      else (Inr [], (advance s)\<lparr>secoes_treino_id_seq := secoes_treino_id_seq s + 1,
              secoes_treino := secoes_treino s @
                [\<lparr>sc_id = secoes_treino_id_seq s, sc_treino_id = tid, sc_nome_secao = prepareValue n,
                  sc_duracao_minutos = prepareValue d, sc_conteudo = prepareValue c,
                  sc_ordem = prepareValue ordv, sc_criado_em = Some (clock s)\<rparr>]\<rparr>))"
  by (simp add: insert_secao_def query_eq Let_def)

lemma update_treino_eq:
  "update_treino d ds ft i s =
     (if fails_next s then (Inl StoreError, advance s)
      else (Inr (map (set_treino d ds ft (clock s)) (filter (\<lambda>r. tr_id r = i) (treinos s))),
            (advance s)\<lparr>treinos :=
               map (\<lambda>r. if tr_id r = i then set_treino d ds ft (clock s) r else r) (treinos s)\<rparr>))"
  by (simp add: update_treino_def query_eq)

lemma delete_secoes_eq:
  "delete_secoes i s =
     (if fails_next s then (Inl StoreError, advance s)
      else (Inr [], (advance s)\<lparr>secoes_treino := filter (\<lambda>r. sc_treino_id r \<noteq> i) (secoes_treino s)\<rparr>))"
  by (simp add: delete_secoes_def query_eq)

lemma delete_treino_row_eq:
  "delete_treino_row i s =
     (if fails_next s then (Inl StoreError, advance s)
      else (Inr (filter (\<lambda>r. tr_id r = i) (treinos s)),
            (advance s)\<lparr>treinos := filter (\<lambda>r. tr_id r \<noteq> i) (treinos s)\<rparr>))"
  by (simp add: delete_treino_row_def query_eq)

section \<open>The order of a column\<close>

text \<open>
  On numbers and on strings the key order is the order of the values, and every value
  that is not NULL comes before NULL.
\<close>

lemma sql_key_num: "sql_key (JNum a) \<le> sql_key (JNum b) \<longleftrightarrow> a \<le> b"
  by (auto simp add: less_eq_prod_def)

lemma sql_key_str: "sql_key (JStr a) \<le> sql_key (JStr b) \<longleftrightarrow> a \<le> b"
  by (auto simp add: less_eq_prod_def)

lemma sql_key_null_last: "sql_key v \<le> sql_key JNull"
  by (cases v) (auto simp add: less_eq_prod_def)

section \<open>The read handlers\<close>

lemma get_treinos_eq:
  "get_treinos s =
     (if fails_next s then ((500, PError ''Failed to fetch treinos''), advance s)
      else ((200, PTreinos (rev (sort_key (\<lambda>r. sql_key (tr_data r)) (treinos s)))), advance s))"
  by (simp add: get_treinos_def select_treinos_def query_eq json_def status_json_def)

lemma get_treino_eq:
  "get_treino i s =
     (if fails_next s then ((500, PError ''Failed to fetch treino''), advance s)
      else case filter (\<lambda>r. tr_id r = i) (treinos s) of
             [] \<Rightarrow> ((404, PError ''Treino not found''), advance s)
           | row # rest \<Rightarrow> ((200, PTreino row), advance s))"
  by (simp add: get_treino_def select_treino_def query_eq json_def status_json_def split: list.splits)

lemma get_secoes_eq:
  "get_secoes i s =
     (if fails_next s then ((500, PError ''Failed to fetch sections''), advance s)
      else ((200, PSecoes (sort_key (\<lambda>r. sql_key (sc_ordem r))
                (filter (\<lambda>r. sc_treino_id r = i) (secoes_treino s)))), advance s))"
  by (simp add: get_secoes_def select_secoes_def query_eq json_def status_json_def)

lemma desc_sorted: "sorted_wrt (\<lambda>a b. f b \<le> f a) (rev (sort_key f xs))"
proof -
  have "sorted (map f (sort_key f xs))" by (rule sorted_sort_key)
  then have "sorted_wrt (\<lambda>a b. f a \<le> f b) (sort_key f xs)" by (simp add: sorted_map)
  then show ?thesis by (simp add: sorted_wrt_rev)
qed

section \<open>The loop over the submitted sections\<close>

lemma insert_secao_frame:
  assumes "insert_secao tid n d c ordv s = (res, s')"
  shows "treinos s' = treinos s" and "clock s' = clock s"
  using assms by (auto simp add: insert_secao_eq split: if_splits)

lemma insert_sections_eq: "insert_sections tid secs s = insert_secoes tid (elements secs) s"
  by (cases secs) (simp_all add: insert_sections_def)

lemma destructure_secoes:
  "destructure body = Inr (d, ds, ft, secs) \<Longrightarrow> js_get body ''secoes'' = Inr secs"
  by (auto simp add: destructure_def split: sum.splits)

section \<open>The write handlers\<close>

lemma put_treino_200:
  assumes "put_treino i body s = ((200, p), s')"
  shows "\<exists>d ds ft secs row rest s1 s2.
           destructure body = Inr (d, ds, ft, secs) \<and>
           update_treino d ds ft i s = (Inr (row # rest), s1) \<and>
           delete_secoes i s1 = (Inr [], s2) \<and>
           insert_secoes i (elements secs) s2 = (Inr (), s') \<and> p = PTreino row"
  using assms
  by (auto simp add: put_treino_def json_def status_json_def insert_sections_eq delete_secoes_eq
      split: sum.splits prod.splits list.splits if_splits)

lemma run_eq: "run = ((status run, sent run), after run)"
  by (simp add: status_def sent_def after_def)

lemma destructure_Inl: "(destructure body = Inl e) = (nullish body \<and> e = TypeError)"
  by (cases body) (auto simp add: destructure_def nullish_def split: option.splits sum.splits)

lemma secao_params_Inl: "(secao_params x = Inl e) = (nullish x \<and> e = TypeError)"
  by (cases x) (auto simp add: secao_params_def nullish_def split: option.splits sum.splits)

lemma filter_other_map:
  assumes "\<And>r. tr_id (f r) = tr_id r"
  shows "filter (\<lambda>r. tr_id r \<noteq> i) (map (\<lambda>r. if tr_id r = i then f r else r) rs) =
         filter (\<lambda>r. tr_id r \<noteq> i) rs"
  using assms by (induction rs) auto

lemma map_unmatched:
  "\<forall>r \<in> set rs. tr_id r \<noteq> i \<Longrightarrow> map (\<lambda>r. if tr_id r = i then f r else r) rs = rs"
  by (induction rs) auto

lemma tr_id_set_treino [simp]: "tr_id (set_treino d ds ft t r) = tr_id r"
  by (simp add: set_treino_def)

lemma put_treino_cases:
  assumes b: "destructure body = Inr (d, ds, ft, secs)"
  shows "put_treino i body s =
     (if fails_next s then ((500, PError ''Failed to update treino''), advance s)
      else case map (set_treino d ds ft (clock s)) (filter (\<lambda>r. tr_id r = i) (treinos s)) of
        [] \<Rightarrow> ((404, PError ''Treino not found''),
               (advance s)\<lparr>treinos := map (\<lambda>r. if tr_id r = i then set_treino d ds ft (clock s) r else r) (treinos s)\<rparr>)
      | row # rest \<Rightarrow>
         (case delete_secoes i ((advance s)\<lparr>treinos := map (\<lambda>r. if tr_id r = i then set_treino d ds ft (clock s) r else r) (treinos s)\<rparr>) of
            (Inl e, s2) \<Rightarrow> ((500, PError ''Failed to update treino''), s2)
          | (Inr dels, s2) \<Rightarrow>
              (case insert_secoes i (elements secs) s2 of
                 (Inl e, s3) \<Rightarrow> ((500, PError ''Failed to update treino''), s3)
               | (Inr u, s3) \<Rightarrow> ((200, PTreino row), s3))))"
proof (cases "map (set_treino d ds ft (clock s)) (filter (\<lambda>r. tr_id r = i) (treinos s))")
  case Nil
  then show ?thesis
    by (simp add: put_treino_def b update_treino_eq json_def status_json_def)
next
  case (Cons row rest)
  then show ?thesis
    by (simp add: put_treino_def b update_treino_eq insert_sections_eq json_def status_json_def
        split: prod.split sum.split)
qed

lemma delete_treino_cases:
  "delete_treino i s =
     (if fails_next s then ((500, PError ''Failed to delete treino''), advance s)
      else if fails_next (advance s)
      then ((500, PError ''Failed to delete treino''),
            (advance (advance s))\<lparr>secoes_treino := filter (\<lambda>r. sc_treino_id r \<noteq> i) (secoes_treino s)\<rparr>)
      else (if filter (\<lambda>r. tr_id r = i) (treinos s) = []
            then (404, PError ''Treino not found'')
            else (200, PMessage ''Treino deleted successfully''),
            (advance (advance s))\<lparr>secoes_treino := filter (\<lambda>r. sc_treino_id r \<noteq> i) (secoes_treino s),
               treinos := filter (\<lambda>r. tr_id r \<noteq> i) (treinos s)\<rparr>))"
proof -
  have adv: "advance (advance s\<lparr>secoes_treino := filter (\<lambda>r. sc_treino_id r \<noteq> i) (secoes_treino s)\<rparr>) =
        (advance (advance s))\<lparr>secoes_treino := filter (\<lambda>r. sc_treino_id r \<noteq> i) (secoes_treino s)\<rparr>"
    by (simp add: advance_def)
  have fl: "fails_next (advance s\<lparr>secoes_treino := filter (\<lambda>r. sc_treino_id r \<noteq> i) (secoes_treino s)\<rparr>) =
        fails_next (advance s)"
    by (simp add: fails_next_def advance_def)
  show ?thesis
    by (cases "filter (\<lambda>r. tr_id r = i) (treinos s)")
      (simp_all add: delete_treino_def delete_secoes_eq delete_treino_row_eq adv fl
        json_def status_json_def)
qed

lemma js_get_submitted: "js_get v k = Inr w \<Longrightarrow> prepareValue w = submitted v k"
  by (cases v) (auto split: option.splits jsval.splits)

lemma secao_params_submitted:
  assumes "secao_params x = Inr (n, d, c, ordv)"
  shows "prepareValue n = submitted x ''nome_secao''"
    and "prepareValue d = submitted x ''duracao_minutos''"
    and "prepareValue c = submitted x ''conteudo''"
    and "prepareValue ordv = submitted x ''ordem''"
  using assms by (auto simp add: secao_params_def js_get_submitted split: sum.splits)

lemma destructure_submitted:
  assumes "destructure body = Inr (d, ds, ft, secs)"
  shows "prepareValue d = submitted body ''data''"
    and "prepareValue ds = submitted body ''dia_semana''"
    and "prepareValue ft = submitted body ''foco_tecnico''"
    and "elements secs = submitted_secoes body"
proof -
  from assms have g: "js_get body ''data'' = Inr d" "js_get body ''dia_semana'' = Inr ds"
    "js_get body ''foco_tecnico'' = Inr ft" "js_get body ''secoes'' = Inr secs"
    by (auto simp add: destructure_def split: sum.splits)
  from g(1) show "prepareValue d = submitted body ''data''" by (rule js_get_submitted)
  from g(2) show "prepareValue ds = submitted body ''dia_semana''" by (rule js_get_submitted)
  from g(3) show "prepareValue ft = submitted body ''foco_tecnico''" by (rule js_get_submitted)
  from g(4) have "submitted body ''secoes'' = prepareValue secs"
    by (rule js_get_submitted [symmetric])
  then show "elements secs = submitted_secoes body"
    by (cases secs) (simp_all add: submitted_secoes_def)
qed

lemma section_rows_treino_id: "\<forall>r \<in> set (section_rows tid t key xs). sc_treino_id r = tid"
  by (induction xs arbitrary: key) (simp_all add: section_row_def)

lemma length_section_rows [simp]: "length (section_rows tid t key xs) = length xs"
  by (induction xs arbitrary: key) simp_all

text \<open>
  Whatever the loop's outcome, it leaves \<^verbatim>\<open>treinos\<close> alone and appends to
  \<^verbatim>\<open>secoes_treino\<close> exactly the rows of the elements before the first failure, in
  input order: all of them when it succeeds, fewer when it fails.
\<close>

lemma insert_secoes_exact:
  "insert_secoes tid xs s = (res, s') \<Longrightarrow>
     treinos s' = treinos s \<and> clock s' = clock s \<and>
     secoes_treino s' = secoes_treino s @
       take (count_stored xs (faults s) (secoes_treino_id_seq s) (sc_id ` set (secoes_treino s)))
         (section_rows tid (clock s) (secoes_treino_id_seq s) xs) \<and>
     (case res of
        Inl e \<Rightarrow> count_stored xs (faults s) (secoes_treino_id_seq s) (sc_id ` set (secoes_treino s))
                   < length xs
      | Inr u \<Rightarrow> count_stored xs (faults s) (secoes_treino_id_seq s) (sc_id ` set (secoes_treino s))
                   = length xs)"
proof (induction xs arbitrary: s)
  case Nil
  then show ?case by auto
next
  case (Cons x xs)
  define key where "key = secoes_treino_id_seq s"
  define ids where "ids = sc_id ` set (secoes_treino s)"
  show ?case
  proof (cases "secao_params x")
    case (Inl e)
    then have "nullish x" by (simp add: secao_params_Inl)
    with Inl Cons.prems show ?thesis by auto
  next
    case (Inr ps)
    obtain n d c ordv where ps: "ps = (n, d, c, ordv)" by (cases ps) auto
    with Inr have p: "secao_params x = Inr (n, d, c, ordv)" by simp
    then have nn: "\<not> nullish x" using secao_params_Inl [of x] by (metis sum.distinct(1))
    have fn: "fails_next s = (case faults s of [] \<Rightarrow> False | f # fs' \<Rightarrow> f)"
      by (simp add: fails_next_def)
    show ?thesis
    proof (cases "fails_next s \<or> key \<in> ids")
      case True
      then have c0: "count_stored (x # xs) (faults s) key ids = 0"
        using fn by auto
      from True p Cons.prems have "secoes_treino s' = secoes_treino s" "treinos s' = treinos s"
        "clock s' = clock s" "\<exists>e. res = Inl e"
        by (auto simp add: insert_secao_eq key_def ids_def split: if_splits)
      with c0 show ?thesis unfolding key_def ids_def by auto
    next
      case False
      define row where "row = section_row tid (clock s) key x"
      define s1 where "s1 = (advance s)\<lparr>secoes_treino_id_seq := key + 1,
              secoes_treino := secoes_treino s @ [row]\<rparr>"
      have ins: "insert_secao tid n d c ordv s = (Inr [], s1)"
        using False secao_params_submitted [OF p]
        by (simp add: insert_secao_eq key_def ids_def s1_def row_def section_row_def)
      with p Cons.prems have rest: "insert_secoes tid xs s1 = (res, s')" by simp
      have s1: "faults s1 = tl (faults s)" "secoes_treino_id_seq s1 = key + 1"
        "sc_id ` set (secoes_treino s1) = insert key ids" "clock s1 = clock s"
        "treinos s1 = treinos s" "secoes_treino s1 = secoes_treino s @ [row]"
        by (auto simp add: s1_def ids_def row_def section_row_def)
      have im: "sc_id ` set (secoes_treino s @ [row]) = insert key ids"
        by (auto simp add: ids_def row_def section_row_def)
      have cs: "count_stored (x # xs) (faults s) key ids =
          Suc (count_stored xs (tl (faults s)) (key + 1) (insert key ids))"
        using False nn fn by simp
      define k where "k = count_stored xs (tl (faults s)) (key + 1) (insert key ids)"
      from Cons.IH [OF rest] have ih:
        "treinos s' = treinos s" "clock s' = clock s"
        "secoes_treino s' = (secoes_treino s @ [row]) @
           take k (section_rows tid (clock s) (key + 1) xs)"
        "(case res of Inl e \<Rightarrow> k < length xs | Inr u \<Rightarrow> k = length xs)"
        unfolding s1(1,2,4,5,6) im k_def by simp_all
      have "secoes_treino s' = secoes_treino s @
          take (Suc k) (section_rows tid (clock s) key (x # xs))"
        using ih(3) by (simp add: row_def)
      moreover have "(case res of Inl e \<Rightarrow> Suc k < length (x # xs)
                      | Inr u \<Rightarrow> Suc k = length (x # xs))"
        using ih(4) by (cases res) simp_all
      ultimately show ?thesis
        using ih(1,2) unfolding key_def [symmetric] ids_def [symmetric] cs k_def [symmetric]
        by simp
    qed
  qed
qed

lemma insert_secoes_frame:
  assumes "insert_secoes i xs s = (res, s')"
  shows "treinos s' = treinos s"
    and "filter (\<lambda>r. sc_treino_id r \<noteq> i) (secoes_treino s') =
         filter (\<lambda>r. sc_treino_id r \<noteq> i) (secoes_treino s)"
proof -
  define new where "new = take
     (count_stored xs (faults s) (secoes_treino_id_seq s) (sc_id ` set (secoes_treino s)))
     (section_rows i (clock s) (secoes_treino_id_seq s) xs)"
  from insert_secoes_exact [OF assms] have
    n: "treinos s' = treinos s" "secoes_treino s' = secoes_treino s @ new"
    by (simp_all add: new_def)
  have "\<forall>r \<in> set new. sc_treino_id r = i"
    using section_rows_treino_id [of i "clock s" "secoes_treino_id_seq s" xs]
      set_take_subset [of _ "section_rows i (clock s) (secoes_treino_id_seq s) xs"]
    unfolding new_def by blast
  then have "filter (\<lambda>r. sc_treino_id r \<noteq> i) new = []"
    by (simp add: filter_empty_conv)
  with n show "treinos s' = treinos s"
    and "filter (\<lambda>r. sc_treino_id r \<noteq> i) (secoes_treino s') =
         filter (\<lambda>r. sc_treino_id r \<noteq> i) (secoes_treino s)"
    by simp_all
qed

lemma put_treino_frame:
  "filter (\<lambda>r. tr_id r \<noteq> i) (treinos (after (put_treino i body s))) =
     filter (\<lambda>r. tr_id r \<noteq> i) (treinos s) \<and>
   filter (\<lambda>r. sc_treino_id r \<noteq> i) (secoes_treino (after (put_treino i body s))) =
     filter (\<lambda>r. sc_treino_id r \<noteq> i) (secoes_treino s)"
proof (cases "destructure body")
  case (Inl e)
  then show ?thesis by (simp add: put_treino_def after_def)
next
  case (Inr ps)
  obtain d ds ft secs where "ps = (d, ds, ft, secs)" by (cases ps) auto
  with Inr have b: "destructure body = Inr (d, ds, ft, secs)" by simp
  define s1 where "s1 = (advance s)\<lparr>treinos :=
     map (\<lambda>r. if tr_id r = i then set_treino d ds ft (clock s) r else r) (treinos s)\<rparr>"
  have s1: "filter (\<lambda>r. tr_id r \<noteq> i) (treinos s1) = filter (\<lambda>r. tr_id r \<noteq> i) (treinos s)"
      "secoes_treino s1 = secoes_treino s"
    by (simp_all add: s1_def filter_other_map)
  obtain r2 s2 where d2: "delete_secoes i s1 = (r2, s2)" by (cases "delete_secoes i s1")
  then have s2: "treinos s2 = treinos s1"
      "filter (\<lambda>r. sc_treino_id r \<noteq> i) (secoes_treino s2) =
       filter (\<lambda>r. sc_treino_id r \<noteq> i) (secoes_treino s1)"
    by (auto simp add: delete_secoes_eq split: if_splits)
  obtain r3 s3 where d3: "insert_secoes i (elements secs) s2 = (r3, s3)"
    by (cases "insert_secoes i (elements secs) s2")
  note s3 = insert_secoes_frame [OF d3]
  have "after (put_treino i body s) = advance s \<or> after (put_treino i body s) = s1 \<or>
        after (put_treino i body s) = s2 \<or> after (put_treino i body s) = s3"
    using d2 d3
    by (simp add: put_treino_cases [OF b] after_def s1_def split: list.split sum.split)
  then show ?thesis using s1 s2 s3 by auto
qed

lemma post_treino_cases:
  assumes b: "destructure body = Inr (d, ds, ft, secs)"
  shows "post_treino body s =
     (case insert_treino d ds ft s of
        (Inl e, s1) \<Rightarrow> ((500, PError ''Failed to create treino''), s1)
      | (Inr [], s1) \<Rightarrow> ((500, PError ''Failed to create treino''), s1)
      | (Inr (row # rest), s1) \<Rightarrow>
          (case insert_secoes (tr_id row) (elements secs) s1 of
             (Inl e, s2) \<Rightarrow> ((500, PError ''Failed to create treino''), s2)
           | (Inr u, s2) \<Rightarrow> ((201, PTreino row), s2)))"
  by (simp add: post_treino_def b insert_sections_eq status_json_def
      split: prod.split sum.split list.split)

lemma not_array_elements: "\<not> isArray secs \<Longrightarrow> elements secs = []"
  by (cases secs) simp_all

section \<open>Creating a workout\<close>

lemma accepts_not_fails: "accepts s \<Longrightarrow> \<not> fails_next s"
  by (cases "faults s") (simp_all add: accepts_def fails_next_def)

lemma accepts_keys_free:
  assumes "accepts s"
  shows "treinos_id_seq s \<notin> tr_id ` set (treinos s)"
    and "secoes_treino_id_seq s \<notin> sc_id ` set (secoes_treino s)"
  using assms by (auto simp add: accepts_def list_all_iff)

lemma accepts_tl: "list_all (\<lambda>f. \<not> f) fs \<Longrightarrow> list_all (\<lambda>f. \<not> f) (tl fs)"
  by (cases fs) simp_all

lemma insert_secao_accepts:
  assumes "accepts s"
  shows "\<exists>s'. insert_secao tid n d c ordv s = (Inr [], s') \<and> accepts s'"
proof -
  define row where "row = \<lparr>sc_id = secoes_treino_id_seq s, sc_treino_id = tid,
     sc_nome_secao = prepareValue n, sc_duracao_minutos = prepareValue d,
     sc_conteudo = prepareValue c, sc_ordem = prepareValue ordv, sc_criado_em = Some (clock s)\<rparr>"
  define s' where "s' = (advance s)\<lparr>secoes_treino_id_seq := secoes_treino_id_seq s + 1,
     secoes_treino := secoes_treino s @ [row]\<rparr>"
  from assms have f: "list_all (\<lambda>f. \<not> f) (tl (faults s))"
    by (simp add: accepts_def accepts_tl)
  from assms have t: "list_all (\<lambda>r. tr_id r < treinos_id_seq s) (treinos s)"
    by (simp add: accepts_def)
  from assms have "\<forall>r \<in> set (secoes_treino s). sc_id r < secoes_treino_id_seq s"
    by (simp add: accepts_def list_all_iff)
  then have "\<forall>r \<in> set (secoes_treino s @ [row]). sc_id r < secoes_treino_id_seq s + 1"
    by (auto simp add: row_def)
  then have k: "list_all (\<lambda>r. sc_id r < secoes_treino_id_seq s + 1) (secoes_treino s @ [row])"
    by (simp only: list_all_iff)
  have "accepts s'"
    unfolding accepts_def using f t k by (simp add: s'_def)
  moreover have "insert_secao tid n d c ordv s = (Inr [], s')"
    using accepts_not_fails [OF assms] accepts_keys_free(2) [OF assms]
    by (simp add: insert_secao_eq s'_def row_def)
  ultimately show ?thesis by blast
qed

lemma insert_secoes_accepts:
  "accepts s \<Longrightarrow> list_all (\<lambda>x. \<not> nullish x) xs \<Longrightarrow>
     \<exists>s'. insert_secoes tid xs s = (Inr (), s') \<and> accepts s'"
proof (induction xs arbitrary: s)
  case Nil
  then show ?case by simp
next
  case (Cons x xs)
  from Cons.prems(2) have "\<not> nullish x" and rest: "list_all (\<lambda>x. \<not> nullish x) xs" by simp_all
  then obtain ps where "secao_params x = Inr ps"
    using secao_params_Inl [of x] by (cases "secao_params x") auto
  moreover obtain n d c ordv where "ps = (n, d, c, ordv)" by (cases ps) auto
  ultimately have p: "secao_params x = Inr (n, d, c, ordv)" by simp
  from insert_secao_accepts [OF Cons.prems(1)] obtain s1 where
    s1: "insert_secao tid n d c ordv s = (Inr [], s1)" "accepts s1" by blast
  from Cons.IH [OF s1(2) rest] obtain s' where
    "insert_secoes tid xs s1 = (Inr (), s')" "accepts s'" by blast
  with p s1 show ?case by simp
qed



lemma with_treino_simps [simp]:
  "treinos (with_treino d ds ft s) = treinos s @ [new_treino d ds ft s]"
  "secoes_treino (with_treino d ds ft s) = secoes_treino s"
  "clock (with_treino d ds ft s) = clock s"
  by (simp_all add: with_treino_def)

lemma with_treino_more [simp]:
  "faults (with_treino d ds ft s) = tl (faults s)"
  "secoes_treino_id_seq (with_treino d ds ft s) = secoes_treino_id_seq s"
  by (simp_all add: with_treino_def)

lemma insert_treino_ok:
  assumes "\<not> fails_next s" and "treinos_id_seq s \<notin> tr_id ` set (treinos s)"
  shows "insert_treino d ds ft s = (Inr [new_treino d ds ft s], with_treino d ds ft s)"
  using assms by (simp add: insert_treino_eq new_treino_def with_treino_def)

lemma insert_treino_refused:
  assumes "fails_next s \<or> treinos_id_seq s \<in> tr_id ` set (treinos s)"
  shows "\<exists>s1. insert_treino d ds ft s = (Inl StoreError, s1) \<and> treinos s1 = treinos s \<and>
           secoes_treino s1 = secoes_treino s"
  using assms by (auto simp add: insert_treino_eq)

lemma post_treino_run:
  assumes b: "destructure body = Inr (d, ds, ft, secs)"
    and ok: "\<not> fails_next s" "treinos_id_seq s \<notin> tr_id ` set (treinos s)"
    and i2: "insert_secoes (treinos_id_seq s) (elements secs) (with_treino d ds ft s) = (r2, s2)"
  shows "post_treino body s =
           (case r2 of
              Inl e \<Rightarrow> ((500, PError ''Failed to create treino''), s2)
            | Inr u \<Rightarrow> ((201, PTreino (new_treino d ds ft s)), s2))"
proof -
  have "tr_id (new_treino d ds ft s) = treinos_id_seq s" by (simp add: new_treino_def)
  with i2 show ?thesis
    by (simp add: post_treino_cases [OF b] insert_treino_ok [OF ok])
qed

lemma post_treino_refused:
  assumes "nullish body \<or> fails_next s \<or> treinos_id_seq s \<in> tr_id ` set (treinos s)"
  shows "fst (post_treino body s) = (500, PError ''Failed to create treino'')"
proof (cases "destructure body")
  case (Inl e)
  then show ?thesis by (simp add: post_treino_def status_json_def)
next
  case (Inr ps)
  obtain d ds ft secs where "ps = (d, ds, ft, secs)" by (cases ps) auto
  with Inr have b: "destructure body = Inr (d, ds, ft, secs)" by simp
  then have "\<not> nullish body" using destructure_Inl [of body] by (metis sum.distinct(1))
  with assms have "fails_next s \<or> treinos_id_seq s \<in> tr_id ` set (treinos s)" by simp
  from insert_treino_refused [OF this, of d ds ft] show ?thesis
    by (auto simp add: post_treino_cases [OF b])
qed


lemma insert_treino_Inr:
  assumes "insert_treino d ds ft s = (Inr rows, s1)"
  shows "\<not> fails_next s" and "treinos_id_seq s \<notin> tr_id ` set (treinos s)"
    and "rows = [new_treino d ds ft s]" and "s1 = with_treino d ds ft s"
  using assms by (auto simp add: insert_treino_eq new_treino_def with_treino_def split: if_splits)

section \<open>Properties of the handlers\<close>

text \<open>
  C1. When \<^verbatim>\<open>PUT /api/treinos/:id\<close> completes with 200 and the body's \<^verbatim>\<open>secoes\<close> is
  an array of \<open>M\<close> elements, the workout exists, and the sections table afterwards is
  the old table without every section of that workout, followed by the rows of the
  \<open>M\<close> submitted elements: for each element, in input order, one row with that
  workout's id and the element's \<^verbatim>\<open>nome_secao\<close>, \<^verbatim>\<open>duracao_minutos\<close>, \<^verbatim>\<open>conteudo\<close> and
  \<^verbatim>\<open>ordem\<close>. So the sections of the workout are exactly the \<open>M\<close> submitted ones and
  none of the earlier ones.
\<close>

theorem put_treino_replaces_sections:
  assumes "status (put_treino i body s) = 200"
    and "submitted body ''secoes'' = JArr xs"
  shows "(\<exists>r \<in> set (treinos s). tr_id r = i) \<and>
         secoes_treino (after (put_treino i body s)) =
           filter (\<lambda>r. sc_treino_id r \<noteq> i) (secoes_treino s) @
           section_rows i (clock s) (secoes_treino_id_seq s) xs \<and>
         filter (\<lambda>r. sc_treino_id r = i) (secoes_treino (after (put_treino i body s))) =
           section_rows i (clock s) (secoes_treino_id_seq s) xs \<and>
         length (filter (\<lambda>r. sc_treino_id r = i) (secoes_treino (after (put_treino i body s)))) =
           length xs"
proof -
  define s' where "s' = after (put_treino i body s)"
  define new where "new = section_rows i (clock s) (secoes_treino_id_seq s) xs"
  have "put_treino i body s = ((200, sent (put_treino i body s)), s')"
    using run_eq [of "put_treino i body s"] assms(1) by (simp add: s'_def)
  from put_treino_200 [OF this] obtain d ds ft secs row rest s1 s2 where
    b: "destructure body = Inr (d, ds, ft, secs)" and
    u: "update_treino d ds ft i s = (Inr (row # rest), s1)" and
    dl: "delete_secoes i s1 = (Inr [], s2)" and
    ins: "insert_secoes i (elements secs) s2 = (Inr (), s')"
    by blast
  from assms(2) have "submitted_secoes body = xs" by (simp add: submitted_secoes_def)
  with destructure_submitted(4) [OF b] have secs: "elements secs = xs" by simp
  from u have s1: "secoes_treino s1 = secoes_treino s" "clock s1 = clock s"
      "secoes_treino_id_seq s1 = secoes_treino_id_seq s"
    and rows: "filter (\<lambda>r. tr_id r = i) (treinos s) \<noteq> []"
    by (auto simp add: update_treino_eq split: if_splits)
  from rows have ex: "\<exists>r \<in> set (treinos s). tr_id r = i"
    by (simp add: filter_empty_conv)
  from dl have s2: "secoes_treino s2 = filter (\<lambda>r. sc_treino_id r \<noteq> i) (secoes_treino s1)"
      "clock s2 = clock s1" "secoes_treino_id_seq s2 = secoes_treino_id_seq s1"
    by (auto simp add: delete_secoes_eq split: if_splits)
  from insert_secoes_exact [OF ins] have
    "secoes_treino s' = secoes_treino s2 @ take (length xs) new"
    unfolding secs new_def s1 s2 by simp
  then have tab: "secoes_treino s' = filter (\<lambda>r. sc_treino_id r \<noteq> i) (secoes_treino s) @ new"
    using s1 s2 by (simp add: new_def)
  have "\<forall>r \<in> set new. sc_treino_id r = i"
    unfolding new_def by (rule section_rows_treino_id)
  then have "filter (\<lambda>r. sc_treino_id r = i) new = new" by simp
  with tab have "filter (\<lambda>r. sc_treino_id r = i) (secoes_treino s') = new" by simp
  moreover have "length new = length xs" by (simp add: new_def)
  ultimately show ?thesis
    using tab ex unfolding s'_def [symmetric] new_def [symmetric] by simp
qed

text \<open>
  The spec's example: a workout with three sections, updated with one section, has
  exactly one section afterwards, and it is the submitted one.
\<close>

theorem put_treino_replaces_sections_witness:
  "status (put_treino 1 example_body example_store) = 200 \<and>
   submitted example_body ''secoes'' = JArr [example_secao] \<and>
   filter (\<lambda>r. sc_treino_id r = 1) (secoes_treino example_store) = [secao1, secao2, secao3] \<and>
   filter (\<lambda>r. sc_treino_id r = 1)
     (secoes_treino (after (put_treino 1 example_body example_store))) = [secao5] \<and>
   secoes_treino (after (put_treino 1 example_body example_store)) = [secao4, secao5]"
proof -
  have h1: "status (put_treino 1 example_body example_store) = 200"
    by (simp add: put_treino_def handler_defs example_defs)
  have h2: "submitted example_body ''secoes'' = JArr [example_secao]"
    by (simp add: example_body_def)
  have h3: "filter (\<lambda>r. sc_treino_id r = 1) (secoes_treino example_store) =
      [secao1, secao2, secao3]"
    "filter (\<lambda>r. sc_treino_id r \<noteq> 1) (secoes_treino example_store) = [secao4]"
    by (simp_all add: example_defs)
  have h4: "section_rows 1 (clock example_store) (secoes_treino_id_seq example_store)
      [example_secao] = [secao5]"
    by (simp add: section_row_def example_store_def example_secao_def secao5_def)
  note t = put_treino_replaces_sections [OF h1 h2, unfolded h3(2) h4 append_Cons append_Nil]
  from t have a: "secoes_treino (after (put_treino 1 example_body example_store)) =
      [secao4, secao5]" by blast
  from t have b: "filter (\<lambda>r. sc_treino_id r = 1)
      (secoes_treino (after (put_treino 1 example_body example_store))) = [secao5]" by blast
  from h1 h2 h3(1) a b show ?thesis by blast
qed

text \<open>
  C2. When no row of \<^verbatim>\<open>treinos\<close> has the id, \<^verbatim>\<open>PUT /api/treinos/:id\<close> deletes and
  inserts no section: both tables are as before. It answers 404 with
  \<^verbatim>\<open>Treino not found\<close> whenever the UPDATE is sent and answered (the body could be
  read and the store did not fail the query); otherwise the request ends in the
  catch block with 500.
\<close>

theorem put_treino_not_found:
  assumes "\<forall>r \<in> set (treinos s). tr_id r \<noteq> i"
  shows "secoes_treino (after (put_treino i body s)) = secoes_treino s \<and>
         treinos (after (put_treino i body s)) = treinos s \<and>
         (\<not> nullish body \<longrightarrow> \<not> fails_next s \<longrightarrow>
            fst (put_treino i body s) = (404, PError ''Treino not found'')) \<and>
         (nullish body \<or> fails_next s \<longrightarrow>
            fst (put_treino i body s) = (500, PError ''Failed to update treino''))"
proof (cases "destructure body")
  case (Inl e)
  then have "nullish body" by (simp add: destructure_Inl)
  with Inl show ?thesis by (simp add: put_treino_def after_def status_json_def)
next
  case (Inr ps)
  obtain d ds ft secs where ps: "ps = (d, ds, ft, secs)" by (cases ps) auto
  with Inr have b: "destructure body = Inr (d, ds, ft, secs)" by simp
  then have nn: "\<not> nullish body" using destructure_Inl [of body] by (metis sum.distinct(1))
  from assms have none: "filter (\<lambda>r. tr_id r = i) (treinos s) = []"
    by (simp add: filter_empty_conv)
  show ?thesis
    using nn none map_unmatched [OF assms]
    by (simp add: put_treino_cases [OF b] after_def)
qed

theorem put_treino_not_found_witness:
  "filter (\<lambda>r. tr_id r = 9) (treinos example_store) = [] \<and>
   \<not> nullish example_body \<and> \<not> fails_next example_store \<and>
   fst (put_treino 9 example_body example_store) = (404, PError ''Treino not found'') \<and>
   secoes_treino (after (put_treino 9 example_body example_store)) =
     [secao1, secao2, secao3, secao4]"
proof -
  have h0: "filter (\<lambda>r. tr_id r = 9) (treinos example_store) = []"
    by (simp add: example_defs)
  then have h1: "\<forall>r \<in> set (treinos example_store). tr_id r \<noteq> 9"
    by (simp add: filter_empty_conv)
  have h2: "\<not> nullish example_body" by (simp add: nullish_def example_body_def)
  have h3: "\<not> fails_next example_store" by (simp add: fails_next_def example_store_def)
  have h4: "secoes_treino example_store = [secao1, secao2, secao3, secao4]"
    by (simp add: example_store_def)
  from put_treino_not_found [OF h1, of example_body] h0 h2 h3 h4 show ?thesis by simp
qed

text \<open>
  C3. \<^verbatim>\<open>DELETE /api/treinos/:id\<close> first deletes every section whose \<^verbatim>\<open>treino_id\<close> is
  the id, whether or not a workout has that id, and then deletes the workout row. If
  the store fails the first query nothing is deleted; if it fails the second, the
  sections are gone and the workout is still there; both end in 500. When both
  queries are answered, the answer is 404 with \<^verbatim>\<open>Treino not found\<close> if no row
  had the id and 200 with the confirmation message if one had. After a 200, on any
  store with the tables so left that answers, \<^verbatim>\<open>GET /api/treinos/:id\<close> gives 404 and
  \<^verbatim>\<open>GET /api/treinos/:id/secoes\<close> gives 200 with an empty array.
\<close>

theorem delete_treino_effect:
  "(fails_next s \<longrightarrow>
      fst (delete_treino i s) = (500, PError ''Failed to delete treino'') \<and>
      secoes_treino (after (delete_treino i s)) = secoes_treino s \<and>
      treinos (after (delete_treino i s)) = treinos s) \<and>
   (\<not> fails_next s \<longrightarrow>
      secoes_treino (after (delete_treino i s)) =
        filter (\<lambda>r. sc_treino_id r \<noteq> i) (secoes_treino s)) \<and>
   (\<not> fails_next s \<longrightarrow> fails_next (advance s) \<longrightarrow>
      fst (delete_treino i s) = (500, PError ''Failed to delete treino'') \<and>
      treinos (after (delete_treino i s)) = treinos s) \<and>
   (\<not> fails_next s \<longrightarrow> \<not> fails_next (advance s) \<longrightarrow>
      treinos (after (delete_treino i s)) = filter (\<lambda>r. tr_id r \<noteq> i) (treinos s) \<and>
      ((\<forall>r \<in> set (treinos s). tr_id r \<noteq> i) \<longrightarrow>
         fst (delete_treino i s) = (404, PError ''Treino not found'')) \<and>
      ((\<exists>r \<in> set (treinos s). tr_id r = i) \<longrightarrow>
         fst (delete_treino i s) = (200, PMessage ''Treino deleted successfully''))) \<and>
   (status (delete_treino i s) = 200 \<longrightarrow>
      (\<forall>t. treinos t = treinos (after (delete_treino i s)) \<longrightarrow>
           secoes_treino t = secoes_treino (after (delete_treino i s)) \<longrightarrow>
           \<not> fails_next t \<longrightarrow>
           fst (get_treino i t) = (404, PError ''Treino not found'') \<and>
           fst (get_secoes i t) = (200, PSecoes [])))"
  by (auto simp add: delete_treino_cases after_def status_def get_treino_eq get_secoes_eq
      filter_empty_conv)

text \<open>
  Deleting workout 1 of the example store answers 200, and the two reads that follow
  give 404 and an empty array. With workout 1 already gone but its sections still
  stored, the same request answers 404 and removes the sections nevertheless.
\<close>

theorem delete_treino_effect_witness:
  "\<not> fails_next example_store \<and> \<not> fails_next (advance example_store) \<and>
   filter (\<lambda>r. tr_id r = 1) (treinos example_store) = [treino1] \<and>
   fst (delete_treino 1 example_store) = (200, PMessage ''Treino deleted successfully'') \<and>
   \<not> fails_next (after (delete_treino 1 example_store)) \<and>
   fst (get_treino 1 (after (delete_treino 1 example_store))) = (404, PError ''Treino not found'') \<and>
   fst (get_secoes 1 (after (delete_treino 1 example_store))) = (200, PSecoes []) \<and>
   filter (\<lambda>r. tr_id r = 1) (treinos (example_store\<lparr>treinos := [treino2, treino3]\<rparr>)) = [] \<and>
   fst (delete_treino 1 (example_store\<lparr>treinos := [treino2, treino3]\<rparr>)) =
     (404, PError ''Treino not found'') \<and>
   secoes_treino (after (delete_treino 1 (example_store\<lparr>treinos := [treino2, treino3]\<rparr>))) =
     [secao4] \<and>
   \<not> fails_next (example_store\<lparr>faults := [False, True]\<rparr>) \<and>
   fails_next (advance (example_store\<lparr>faults := [False, True]\<rparr>)) \<and>
   fst (delete_treino 1 (example_store\<lparr>faults := [False, True]\<rparr>)) =
     (500, PError ''Failed to delete treino'') \<and>
   treinos (after (delete_treino 1 (example_store\<lparr>faults := [False, True]\<rparr>))) =
     [treino1, treino2, treino3] \<and>
   secoes_treino (after (delete_treino 1 (example_store\<lparr>faults := [False, True]\<rparr>))) =
     [secao4]"
proof -
  define s2 where "s2 = example_store\<lparr>faults := [False, True]\<rparr>"
  have k1: "\<not> fails_next s2" "fails_next (advance s2)"
    by (simp_all add: s2_def fails_next_def advance_def)
  have k2: "treinos s2 = [treino1, treino2, treino3]"
    "filter (\<lambda>r. sc_treino_id r \<noteq> 1) (secoes_treino s2) = [secao4]"
    by (simp_all add: s2_def example_defs)
  from delete_treino_effect [of s2 1] k1 k2
  have e: "fst (delete_treino 1 s2) = (500, PError ''Failed to delete treino'') \<and>
           treinos (after (delete_treino 1 s2)) = [treino1, treino2, treino3] \<and>
           secoes_treino (after (delete_treino 1 s2)) = [secao4]"
    by simp
  define s0 where "s0 = example_store\<lparr>treinos := [treino2, treino3]\<rparr>"
  have h1: "\<not> fails_next example_store" "\<not> fails_next (advance example_store)"
    by (simp_all add: fails_next_def advance_def example_store_def)
  have h2: "filter (\<lambda>r. tr_id r = 1) (treinos example_store) = [treino1]"
    by (simp add: example_defs)
  then have "treino1 \<in> set (treinos example_store)" "tr_id treino1 = 1"
    by (simp_all add: example_defs)
  then have h3: "\<exists>r \<in> set (treinos example_store). tr_id r = 1" by blast
  have h4: "\<not> fails_next (after (delete_treino 1 example_store))"
    by (simp add: delete_treino_def handler_defs fails_next_def example_defs)
  from delete_treino_effect [of example_store 1] h1 h3
  have a: "fst (delete_treino 1 example_store) = (200, PMessage ''Treino deleted successfully'')"
    by blast
  then have a': "status (delete_treino 1 example_store) = 200" by (simp add: status_def)
  from delete_treino_effect [of example_store 1] a' h4
  have b: "fst (get_treino 1 (after (delete_treino 1 example_store))) =
             (404, PError ''Treino not found'') \<and>
           fst (get_secoes 1 (after (delete_treino 1 example_store))) = (200, PSecoes [])"
    by blast
  have g1: "\<not> fails_next s0" "\<not> fails_next (advance s0)"
    by (simp_all add: s0_def fails_next_def advance_def example_store_def)
  have g2: "filter (\<lambda>r. tr_id r = 1) (treinos s0) = []"
    by (simp add: s0_def example_defs)
  then have g3: "\<forall>r \<in> set (treinos s0). tr_id r \<noteq> 1" by (simp add: filter_empty_conv)
  have g4: "filter (\<lambda>r. sc_treino_id r \<noteq> 1) (secoes_treino s0) = [secao4]"
    by (simp add: s0_def example_defs)
  from delete_treino_effect [of s0 1] g1 g3 g4
  have c: "fst (delete_treino 1 s0) = (404, PError ''Treino not found'') \<and>
           secoes_treino (after (delete_treino 1 s0)) = [secao4]"
    by simp
  from h1 h2 h4 a b g2 c k1 e show ?thesis unfolding s0_def s2_def by simp
qed

text \<open>
  C4. \<^verbatim>\<open>POST /api/treinos\<close> with a valid payload, on a store that accepts what it is
  sent, answers 201. Whenever it answers 201, the payload is the created workout row
  alone: its id is the key the store generated, its three fields are the submitted
  values (NULL for a field the body does not have; the store is taken to keep a value
  as it was bound), both timestamps are set to the time of the request. The row was
  appended to \<^verbatim>\<open>treinos\<close>, and \<^verbatim>\<open>secoes_treino\<close> received, under that id, the row of
  each submitted element of \<^verbatim>\<open>secoes\<close> in input order (none when \<^verbatim>\<open>secoes\<close> is not an
  array). On any store with the \<^verbatim>\<open>treinos\<close> table so left that answers,
  \<^verbatim>\<open>GET /api/treinos/:id\<close> with that id gives 200 with the same row.
\<close>

theorem post_treino_then_get:
  "(valid_payload body \<longrightarrow> accepts s \<longrightarrow> status (post_treino body s) = 201) \<and>
   (status (post_treino body s) = 201 \<longrightarrow>
      sent (post_treino body s) = PTreino (workout_row body s) \<and>
      tr_criado_em (workout_row body s) \<noteq> None \<and>
      tr_atualizado_em (workout_row body s) \<noteq> None \<and>
      treinos (after (post_treino body s)) = treinos s @ [workout_row body s] \<and>
      secoes_treino (after (post_treino body s)) =
        secoes_treino s @
        section_rows (treinos_id_seq s) (clock s) (secoes_treino_id_seq s) (submitted_secoes body) \<and>
      (\<forall>t. treinos t = treinos (after (post_treino body s)) \<longrightarrow> \<not> fails_next t \<longrightarrow>
         fst (get_treino (treinos_id_seq s) t) = (200, PTreino (workout_row body s))))"
proof (intro conjI impI)
  assume v: "valid_payload body" and a: "accepts s"
  from v have "\<not> nullish body" by (simp add: valid_payload_def)
  then obtain ps where "destructure body = Inr ps"
    using destructure_Inl [of body] by (cases "destructure body") auto
  moreover obtain d ds ft secs where "ps = (d, ds, ft, secs)" by (cases ps) auto
  ultimately have b: "destructure body = Inr (d, ds, ft, secs)" by simp
  from v destructure_submitted(4) [OF b]
  have el: "list_all (\<lambda>x. \<not> nullish x) (elements secs)"
    by (simp add: valid_payload_def)
  note ok = accepts_not_fails [OF a] accepts_keys_free(1) [OF a]
  have "accepts (with_treino d ds ft s)"
  proof -
    from a have "\<forall>r \<in> set (treinos s). tr_id r < treinos_id_seq s"
      by (simp add: accepts_def list_all_iff)
    then have "\<forall>r \<in> set (treinos s @ [new_treino d ds ft s]). tr_id r < treinos_id_seq s + 1"
      by (auto simp add: new_treino_def)
    then have "list_all (\<lambda>r. tr_id r < treinos_id_seq s + 1) (treinos s @ [new_treino d ds ft s])"
      by (simp only: list_all_iff)
    moreover from a have "list_all (\<lambda>f. \<not> f) (tl (faults s))"
      by (simp add: accepts_def accepts_tl)
    moreover from a have "list_all (\<lambda>r. sc_id r < secoes_treino_id_seq s) (secoes_treino s)"
      by (simp add: accepts_def)
    ultimately show ?thesis
      unfolding accepts_def by (simp add: with_treino_def)
  qed
  from insert_secoes_accepts [OF this el] obtain s2 where
    "insert_secoes (treinos_id_seq s) (elements secs) (with_treino d ds ft s) = (Inr (), s2)"
    by blast
  from post_treino_run [OF b ok this] show "status (post_treino body s) = 201"
    by (simp add: status_def)
next
  assume st: "status (post_treino body s) = 201"
  then have "\<not> (nullish body \<or> fails_next s \<or> treinos_id_seq s \<in> tr_id ` set (treinos s))"
    using post_treino_refused [of body s] by (auto simp add: status_def)
  then have nn: "\<not> nullish body" and ok: "\<not> fails_next s"
      "treinos_id_seq s \<notin> tr_id ` set (treinos s)"
    by simp_all
  from nn obtain ps where "destructure body = Inr ps"
    using destructure_Inl [of body] by (cases "destructure body") auto
  moreover obtain d ds ft secs where "ps = (d, ds, ft, secs)" by (cases ps) auto
  ultimately have b: "destructure body = Inr (d, ds, ft, secs)" by simp
  note sub = destructure_submitted [OF b]
  have row: "new_treino d ds ft s = workout_row body s"
    by (simp add: new_treino_def workout_row_def sub)
  obtain r2 s2 where
    i2: "insert_secoes (treinos_id_seq s) (elements secs) (with_treino d ds ft s) = (r2, s2)"
    by (cases "insert_secoes (treinos_id_seq s) (elements secs) (with_treino d ds ft s)")
  note run = post_treino_run [OF b ok i2]
  from run st have r2: "r2 = Inr ()"
    by (cases r2) (simp_all add: status_def)
  with run row have res: "post_treino body s = ((201, PTreino (workout_row body s)), s2)"
    by simp
  from insert_secoes_exact [OF i2] r2 have
    new: "treinos s2 = treinos s @ [workout_row body s]"
      "secoes_treino s2 = secoes_treino s @
         section_rows (treinos_id_seq s) (clock s) (secoes_treino_id_seq s) (submitted_secoes body)"
    by (simp_all add: with_treino_more sub(4) row)
  from ok(2) have "\<forall>r \<in> set (treinos s). tr_id r \<noteq> treinos_id_seq s"
    by (metis imageI)
  then have old: "filter (\<lambda>r. tr_id r = treinos_id_seq s) (treinos s) = []"
    by (simp add: filter_empty_conv)
  have rid: "tr_id (workout_row body s) = treinos_id_seq s" by (simp add: workout_row_def)
  show "sent (post_treino body s) = PTreino (workout_row body s)"
    by (simp add: res sent_def)
  show "tr_criado_em (workout_row body s) \<noteq> None" by (simp add: workout_row_def)
  show "tr_atualizado_em (workout_row body s) \<noteq> None" by (simp add: workout_row_def)
  show "treinos (after (post_treino body s)) = treinos s @ [workout_row body s]"
    by (simp add: res after_def new)
  show "secoes_treino (after (post_treino body s)) =
        secoes_treino s @
        section_rows (treinos_id_seq s) (clock s) (secoes_treino_id_seq s) (submitted_secoes body)"
    by (simp add: res after_def new)
  show "\<forall>t. treinos t = treinos (after (post_treino body s)) \<longrightarrow> \<not> fails_next t \<longrightarrow>
         fst (get_treino (treinos_id_seq s) t) = (200, PTreino (workout_row body s))"
    using old rid new(1) by (simp add: res after_def get_treino_eq)
qed

text \<open>
  The example body on the example store: 201; workout 4 and its one section are
  stored with the submitted values, and the read that follows returns workout 4.
\<close>

theorem post_treino_then_get_witness:
  "valid_payload example_body \<and> accepts example_store \<and>
   fst (post_treino example_body example_store) = (201, PTreino treino4) \<and>
   treinos (after (post_treino example_body example_store)) =
     [treino1, treino2, treino3, treino4] \<and>
   secoes_treino (after (post_treino example_body example_store)) =
     [secao1, secao2, secao3, secao4, secao5_of_4] \<and>
   \<not> fails_next (after (post_treino example_body example_store)) \<and>
   fst (get_treino 4 (after (post_treino example_body example_store))) = (200, PTreino treino4)"
proof -
  define run where "run = post_treino example_body example_store"
  have v: "valid_payload example_body"
    by (simp add: valid_payload_def submitted_secoes_def nullish_def example_body_def
        example_secao_def)
  have a: "accepts example_store"
    by (simp add: accepts_def example_defs)
  have w: "workout_row example_body example_store = treino4"
    by (simp add: workout_row_def example_body_def example_store_def treino4_def)
  have r: "section_rows (treinos_id_seq example_store) (clock example_store)
      (secoes_treino_id_seq example_store) (submitted_secoes example_body) = [secao5_of_4]"
    by (simp add: submitted_secoes_def section_row_def example_body_def example_secao_def
        example_store_def secao5_of_4_def)
  have c: "treinos_id_seq example_store = 4"
    "treinos example_store = [treino1, treino2, treino3]"
    "secoes_treino example_store = [secao1, secao2, secao3, secao4]"
    by (simp_all add: example_store_def)
  from post_treino_then_get [of example_body example_store] v a
  have st: "status run = 201" unfolding run_def by blast
  have f: "\<not> fails_next (after run)"
    unfolding run_def by (simp add: post_treino_def handler_defs fails_next_def example_defs)
  note t = post_treino_then_get [of example_body example_store, THEN conjunct2, rule_format,
      OF st [unfolded run_def], unfolded w r, unfolded c append_Cons append_Nil, folded run_def]
  from t have p: "sent run = PTreino treino4"
      "treinos (after run) = [treino1, treino2, treino3, treino4]"
      "secoes_treino (after run) = [secao1, secao2, secao3, secao4, secao5_of_4]"
    and get: "\<forall>t. treinos t = treinos (after run) \<longrightarrow> \<not> fails_next t \<longrightarrow>
            fst (get_treino 4 t) = (200, PTreino treino4)"
    by blast+
  from get f have g: "fst (get_treino 4 (after run)) = (200, PTreino treino4)" by blast
  from st p(1) have h: "fst run = (201, PTreino treino4)"
    by (simp add: status_def sent_def prod_eq_iff)
  from v a h p(2) p(3) f g show ?thesis unfolding run_def by blast
qed

text \<open>
  C5. \<^verbatim>\<open>GET /api/treinos/:id\<close> answers 500 with the generic error exactly when the
  store fails the query; otherwise it answers 404 with \<^verbatim>\<open>Treino not found\<close> exactly
  when no row of \<^verbatim>\<open>treinos\<close> has the id, and 200 with the row exactly when one has.
  The tables are left as they were.
\<close>

theorem get_treino_responses:
  "(status (get_treino i s) = 500 \<longleftrightarrow> fails_next s) \<and>
   (status (get_treino i s) = 404 \<longleftrightarrow> \<not> fails_next s \<and> (\<forall>r \<in> set (treinos s). tr_id r \<noteq> i)) \<and>
   (status (get_treino i s) = 200 \<longleftrightarrow> \<not> fails_next s \<and> (\<exists>r \<in> set (treinos s). tr_id r = i)) \<and>
   (status (get_treino i s) = 500 \<longrightarrow> sent (get_treino i s) = PError ''Failed to fetch treino'') \<and>
   (status (get_treino i s) = 404 \<longrightarrow> sent (get_treino i s) = PError ''Treino not found'') \<and>
   (status (get_treino i s) = 200 \<longrightarrow>
      (\<exists>row \<in> set (treinos s). tr_id row = i \<and> sent (get_treino i s) = PTreino row)) \<and>
   (\<forall>row. \<not> fails_next s \<longrightarrow> filter (\<lambda>r. tr_id r = i) (treinos s) = [row] \<longrightarrow>
      fst (get_treino i s) = (200, PTreino row)) \<and>
   treinos (after (get_treino i s)) = treinos s \<and>
   secoes_treino (after (get_treino i s)) = secoes_treino s"
proof (cases "filter (\<lambda>r. tr_id r = i) (treinos s)")
  case Nil
  then have "\<forall>r \<in> set (treinos s). tr_id r \<noteq> i"
    by (simp add: filter_empty_conv)
  with Nil show ?thesis by (simp add: get_treino_eq status_def sent_def after_def)
next
  case (Cons row rest)
  then have "row \<in> set (filter (\<lambda>r. tr_id r = i) (treinos s))" by simp
  then have "row \<in> set (treinos s)" "tr_id row = i" by auto
  with Cons show ?thesis by (auto simp add: get_treino_eq status_def sent_def after_def)
qed

theorem get_treino_responses_witness:
  "\<not> fails_next example_store \<and>
   filter (\<lambda>r. tr_id r = 2) (treinos example_store) = [treino2] \<and>
   fst (get_treino 2 example_store) = (200, PTreino treino2) \<and>
   filter (\<lambda>r. tr_id r = 9) (treinos example_store) = [] \<and>
   status (get_treino 9 example_store) = 404 \<and>
   fails_next (example_store\<lparr>faults := [True]\<rparr>) \<and>
   status (get_treino 2 (example_store\<lparr>faults := [True]\<rparr>)) = 500"
proof -
  have h1: "\<not> fails_next example_store"
    by (simp add: fails_next_def example_store_def)
  have h2: "filter (\<lambda>r. tr_id r = 2) (treinos example_store) = [treino2]"
    by (simp add: example_defs)
  have h3: "filter (\<lambda>r. tr_id r = 9) (treinos example_store) = []"
    by (simp add: example_defs)
  then have h3': "\<forall>r \<in> set (treinos example_store). tr_id r \<noteq> 9"
    by (simp add: filter_empty_conv)
  have h4: "fails_next (example_store\<lparr>faults := [True]\<rparr>)"
    by (simp add: fails_next_def)
  from get_treino_responses [of 2 example_store] h1 h2
  have a: "fst (get_treino 2 example_store) = (200, PTreino treino2)" by blast
  from get_treino_responses [of 9 example_store] h1 h3'
  have b: "status (get_treino 9 example_store) = 404" by blast
  from get_treino_responses [of 2 "example_store\<lparr>faults := [True]\<rparr>"] h4
  have c: "status (get_treino 2 (example_store\<lparr>faults := [True]\<rparr>)) = 500" by blast
  from h1 h2 h3 h4 a b c show ?thesis by simp
qed

text \<open>
  C6. \<^verbatim>\<open>GET /api/treinos/:id/secoes\<close>, when the store answers, responds 200 with
  exactly the rows of \<^verbatim>\<open>secoes_treino\<close> whose \<^verbatim>\<open>treino_id\<close> is the id (each as often as
  it is stored), in ascending order of \<^verbatim>\<open>ordem\<close>; the array is empty when there is no
  such row. The table \<^verbatim>\<open>treinos\<close> is never read, so the answer is the same whether or
  not a workout with that id exists. When the store fails the query the answer is 500.
\<close>

theorem get_secoes_sorted:
  "(fails_next s \<longrightarrow> fst (get_secoes i s) = (500, PError ''Failed to fetch sections'')) \<and>
   (\<not> fails_next s \<longrightarrow>
      (\<exists>rows. fst (get_secoes i s) = (200, PSecoes rows) \<and>
         mset rows = mset (filter (\<lambda>r. sc_treino_id r = i) (secoes_treino s)) \<and>
         sorted (map (\<lambda>r. sql_key (sc_ordem r)) rows) \<and>
         ((\<forall>r \<in> set (secoes_treino s). sc_treino_id r \<noteq> i) \<longrightarrow> rows = []))) \<and>
   fst (get_secoes i (s\<lparr>treinos := ts\<rparr>)) = fst (get_secoes i s)"
proof -
  have "fails_next (s\<lparr>treinos := ts\<rparr>) = fails_next s" by (simp add: fails_next_def)
  then show ?thesis by (auto simp add: get_secoes_eq filter_empty_conv)
qed

text \<open>
  The three sections of workout 1 were stored with \<^verbatim>\<open>ordem\<close> 2, 3, 1 and come back
  as 1, 2, 3; id 9 has no workout and no section and gets 200 with an empty array.
\<close>

theorem get_secoes_sorted_witness:
  "\<not> fails_next example_store \<and>
   fst (get_secoes 1 example_store) = (200, PSecoes [secao3, secao1, secao2]) \<and>
   filter (\<lambda>r. tr_id r = 9) (treinos example_store) = [] \<and>
   filter (\<lambda>r. sc_treino_id r = 9) (secoes_treino example_store) = [] \<and>
   fst (get_secoes 9 example_store) = (200, PSecoes []) \<and>
   fails_next (example_store\<lparr>faults := [True]\<rparr>) \<and>
   fst (get_secoes 1 (example_store\<lparr>faults := [True]\<rparr>)) = (500, PError ''Failed to fetch sections'')"
proof -
  have h1: "\<not> fails_next example_store"
    by (simp add: fails_next_def example_store_def)
  have h2: "filter (\<lambda>r. sc_treino_id r = 9) (secoes_treino example_store) = []"
    by (simp add: example_defs)
  then have h2': "\<forall>r \<in> set (secoes_treino example_store). sc_treino_id r \<noteq> 9"
    by (simp add: filter_empty_conv)
  have h3: "filter (\<lambda>r. tr_id r = 9) (treinos example_store) = []"
    by (simp add: example_defs)
  have h4: "fails_next (example_store\<lparr>faults := [True]\<rparr>)"
    by (simp add: fails_next_def)
  have a: "fst (get_secoes 1 example_store) = (200, PSecoes [secao3, secao1, secao2])"
    by (simp add: get_secoes_def handler_defs example_defs)
  from get_secoes_sorted [of example_store 9] h1 h2' 
  have b: "fst (get_secoes 9 example_store) = (200, PSecoes [])" by auto
  from get_secoes_sorted [of "example_store\<lparr>faults := [True]\<rparr>" 1] h4
  have c: "fst (get_secoes 1 (example_store\<lparr>faults := [True]\<rparr>)) =
             (500, PError ''Failed to fetch sections'')" by blast
  from h1 h2 h3 h4 a b c show ?thesis by simp
qed

text \<open>
  C7. \<^verbatim>\<open>GET /api/treinos\<close>, when the store answers, responds 200 with an array holding
  every row of \<^verbatim>\<open>treinos\<close> (each as often as it is stored, so the array is empty for
  an empty table), in descending order of \<^verbatim>\<open>data\<close>; when the store fails the query
  it responds 500 with the generic error \<^verbatim>\<open>Failed to fetch treinos\<close>.
\<close>

theorem get_treinos_sorted_desc:
  "(fails_next s \<longrightarrow> fst (get_treinos s) = (500, PError ''Failed to fetch treinos'')) \<and>
   (\<not> fails_next s \<longrightarrow>
      (\<exists>rows. fst (get_treinos s) = (200, PTreinos rows) \<and>
         mset rows = mset (treinos s) \<and>
         sorted_wrt (\<lambda>a b. sql_key (tr_data b) \<le> sql_key (tr_data a)) rows))"
  by (simp add: get_treinos_eq desc_sorted)

text \<open>
  The spec's example: workouts dated 2024-01-01, 2024-03-01, 2024-02-01, inserted in
  that order, are listed as 03-01, 02-01, 01-01.
\<close>

theorem get_treinos_sorted_desc_witness:
  "\<not> fails_next example_store \<and>
   map tr_data (treinos example_store) = [JStr ''2024-01-01'', JStr ''2024-03-01'', JStr ''2024-02-01''] \<and>
   (\<exists>rows. fst (get_treinos example_store) = (200, PTreinos rows) \<and>
      map tr_data rows = [JStr ''2024-03-01'', JStr ''2024-02-01'', JStr ''2024-01-01'']) \<and>
   fails_next (example_store\<lparr>faults := [True]\<rparr>) \<and>
   fst (get_treinos (example_store\<lparr>faults := [True]\<rparr>)) = (500, PError ''Failed to fetch treinos'')"
proof -
  have h1: "\<not> fails_next example_store"
    by (simp add: fails_next_def example_store_def)
  have h2: "map tr_data (treinos example_store) =
              [JStr ''2024-01-01'', JStr ''2024-03-01'', JStr ''2024-02-01'']"
    by (simp add: example_defs)
  have h4: "fails_next (example_store\<lparr>faults := [True]\<rparr>)"
    by (simp add: fails_next_def)
  have a: "fst (get_treinos example_store) = (200, PTreinos [treino2, treino3, treino1])"
    by (simp add: get_treinos_def handler_defs example_defs)
  from get_treinos_sorted_desc [of example_store] h1 a
  have b: "\<exists>rows. fst (get_treinos example_store) = (200, PTreinos rows) \<and>
      map tr_data rows = [JStr ''2024-03-01'', JStr ''2024-02-01'', JStr ''2024-01-01'']"
    by (simp add: example_defs)
  from get_treinos_sorted_desc [of "example_store\<lparr>faults := [True]\<rparr>"] h4
  have c: "fst (get_treinos (example_store\<lparr>faults := [True]\<rparr>)) =
             (500, PError ''Failed to fetch treinos'')" by blast
  from h1 h2 h4 b c show ?thesis by simp
qed

text \<open>
  C8. When the workout INSERT of \<^verbatim>\<open>POST /api/treinos\<close> succeeds (the body can be read,
  the store answers the INSERT and the generated key is free) and the request fails
  nevertheless, the answer is 500 with \<^verbatim>\<open>Failed to create treino\<close> and nothing is
  rolled back: the workout row is in \<^verbatim>\<open>treinos\<close> afterwards, and \<^verbatim>\<open>secoes_treino\<close> holds,
  after its old rows, the row of every submitted element before the first one that
  failed (it was \<^verbatim>\<open>null\<close>, the store failed its INSERT, or its key was taken), and of
  no other. The failure is in the loop: fewer elements were stored than submitted.
\<close>

theorem post_treino_no_rollback:
  assumes "\<not> nullish body"
    and "\<not> fails_next s" and "treinos_id_seq s \<notin> tr_id ` set (treinos s)"
    and "status (post_treino body s) \<noteq> 201"
  shows "fst (post_treino body s) = (500, PError ''Failed to create treino'') \<and>
         treinos (after (post_treino body s)) = treinos s @ [workout_row body s] \<and>
         secoes_treino (after (post_treino body s)) =
           secoes_treino s @
           take (count_stored (submitted_secoes body) (tl (faults s)) (secoes_treino_id_seq s)
                   (sc_id ` set (secoes_treino s)))
             (section_rows (treinos_id_seq s) (clock s) (secoes_treino_id_seq s)
                (submitted_secoes body)) \<and>
         count_stored (submitted_secoes body) (tl (faults s)) (secoes_treino_id_seq s)
           (sc_id ` set (secoes_treino s)) < length (submitted_secoes body)"
proof -
  from assms(1) obtain ps where "destructure body = Inr ps"
    using destructure_Inl [of body] by (cases "destructure body") auto
  moreover obtain d ds ft secs where "ps = (d, ds, ft, secs)" by (cases ps) auto
  ultimately have b: "destructure body = Inr (d, ds, ft, secs)" by simp
  note sub = destructure_submitted [OF b]
  have row: "new_treino d ds ft s = workout_row body s"
    by (simp add: new_treino_def workout_row_def sub)
  obtain r2 s2 where
    i2: "insert_secoes (treinos_id_seq s) (elements secs) (with_treino d ds ft s) = (r2, s2)"
    by (cases "insert_secoes (treinos_id_seq s) (elements secs) (with_treino d ds ft s)")
  note run = post_treino_run [OF b assms(2) assms(3) i2]
  from run assms(4) obtain e where r2: "r2 = Inl e"
    by (cases r2) (simp_all add: status_def)
  with run have res: "post_treino body s = ((500, PError ''Failed to create treino''), s2)"
    by simp
  from insert_secoes_exact [OF i2] r2 have
    "treinos s2 = treinos s @ [workout_row body s]"
    "secoes_treino s2 = secoes_treino s @
       take (count_stored (submitted_secoes body) (tl (faults s)) (secoes_treino_id_seq s)
               (sc_id ` set (secoes_treino s)))
         (section_rows (treinos_id_seq s) (clock s) (secoes_treino_id_seq s)
            (submitted_secoes body))"
    "count_stored (submitted_secoes body) (tl (faults s)) (secoes_treino_id_seq s)
       (sc_id ` set (secoes_treino s)) < length (submitted_secoes body)"
    by (simp_all add: with_treino_more sub(4) row)
  with res show ?thesis by (simp add: after_def)
qed

text \<open>
  Two sections are submitted and the store fails the second section INSERT: the
  answer is 500, and workout 4 and its first section stay, with the submitted values.
\<close>

theorem post_treino_no_rollback_witness:
  "\<not> nullish example_body2 \<and> \<not> fails_next faulty_store \<and>
   treinos_id_seq faulty_store \<notin> tr_id ` set (treinos faulty_store) \<and>
   submitted_secoes example_body2 = [example_secao, example_secao] \<and>
   count_stored (submitted_secoes example_body2) (tl (faults faulty_store))
     (secoes_treino_id_seq faulty_store) (sc_id ` set (secoes_treino faulty_store)) = 1 \<and>
   fst (post_treino example_body2 faulty_store) = (500, PError ''Failed to create treino'') \<and>
   treinos (after (post_treino example_body2 faulty_store)) =
     [treino1, treino2, treino3, treino4] \<and>
   secoes_treino (after (post_treino example_body2 faulty_store)) =
     [secao1, secao2, secao3, secao4, secao5_of_4]"
proof -
  have h1: "\<not> nullish example_body2" by (simp add: nullish_def example_body2_def)
  have h2: "\<not> fails_next faulty_store"
    by (simp add: fails_next_def faulty_store_def)
  have h3: "treinos_id_seq faulty_store \<notin> tr_id ` set (treinos faulty_store)"
    by (simp add: example_defs)
  have h4: "status (post_treino example_body2 faulty_store) \<noteq> 201"
    by (simp add: post_treino_def handler_defs example_defs)
  have e: "submitted_secoes example_body2 = [example_secao, example_secao]"
    by (simp add: submitted_secoes_def example_body2_def)
  have k: "count_stored (submitted_secoes example_body2) (tl (faults faulty_store))
      (secoes_treino_id_seq faulty_store) (sc_id ` set (secoes_treino faulty_store)) = 1"
    unfolding e by (simp add: nullish_def example_defs)
  have w: "workout_row example_body2 faulty_store = treino4"
    by (simp add: workout_row_def example_defs)
  have r: "take 1 (section_rows (treinos_id_seq faulty_store) (clock faulty_store)
      (secoes_treino_id_seq faulty_store) (submitted_secoes example_body2)) = [secao5_of_4]"
    unfolding e
    by (simp add: section_row_def example_secao_def faulty_store_def example_store_def
        secao5_of_4_def)
  have c: "treinos faulty_store = [treino1, treino2, treino3]"
    "secoes_treino faulty_store = [secao1, secao2, secao3, secao4]"
    by (simp_all add: faulty_store_def example_store_def)
  note t = post_treino_no_rollback [OF h1 h2 h3 h4, unfolded k w, unfolded r,
      unfolded c append_Cons append_Nil]
  from t have p: "fst (post_treino example_body2 faulty_store) =
      (500, PError ''Failed to create treino'')"
    "treinos (after (post_treino example_body2 faulty_store)) =
      [treino1, treino2, treino3, treino4]"
    "secoes_treino (after (post_treino example_body2 faulty_store)) =
      [secao1, secao2, secao3, secao4, secao5_of_4]"
    by blast+
  from h1 h2 h3 e k p show ?thesis by blast
qed

text \<open>
  C9. When the body's \<^verbatim>\<open>secoes\<close> is not an array (a string, a number, an object,
  \<^verbatim>\<open>null\<close>, or absent), the section step is skipped and the request does not fail on
  its account. \<^verbatim>\<open>POST /api/treinos\<close> answers 201 with the workout row whenever the
  workout INSERT succeeds (the store answers it and the generated key is free), and
  the sections table is as before. \<^verbatim>\<open>PUT /api/treinos/:id\<close> answers 200 with the
  updated row whenever the workout exists and the store answers the UPDATE and the
  DELETE, and the sections table is the old one without the workout's sections: no
  section row is inserted.
\<close>

theorem non_array_secoes_skipped:
  assumes "js_get body ''secoes'' = Inr secs" and "\<not> isArray secs"
  shows "(\<not> fails_next s \<longrightarrow> treinos_id_seq s \<notin> tr_id ` set (treinos s) \<longrightarrow>
            (\<exists>row. fst (post_treino body s) = (201, PTreino row) \<and>
               treinos (after (post_treino body s)) = treinos s @ [row]) \<and>
            secoes_treino (after (post_treino body s)) = secoes_treino s) \<and>
         (\<not> fails_next s \<longrightarrow> \<not> fails_next (advance s) \<longrightarrow>
          (\<exists>r \<in> set (treinos s). tr_id r = i) \<longrightarrow>
            (\<exists>row. fst (put_treino i body s) = (200, PTreino row) \<and>
               row \<in> set (treinos (after (put_treino i body s))) \<and> tr_id row = i) \<and>
            secoes_treino (after (put_treino i body s)) =
              filter (\<lambda>r. sc_treino_id r \<noteq> i) (secoes_treino s))"
proof -
  from assms(1) have "\<not> nullish body"
    by (cases body) (auto simp add: nullish_def)
  then obtain ps where "destructure body = Inr ps"
    using destructure_Inl [of body] by (cases "destructure body") auto
  moreover obtain d ds ft secs' where "ps = (d, ds, ft, secs')" by (cases ps) auto
  ultimately have "destructure body = Inr (d, ds, ft, secs')" by simp
  with assms(1) have b: "destructure body = Inr (d, ds, ft, secs)"
    using destructure_secoes by fastforce
  note el = not_array_elements [OF assms(2)]
  have post: "\<not> fails_next s \<longrightarrow> treinos_id_seq s \<notin> tr_id ` set (treinos s) \<longrightarrow>
            (\<exists>row. fst (post_treino body s) = (201, PTreino row) \<and>
               treinos (after (post_treino body s)) = treinos s @ [row]) \<and>
            secoes_treino (after (post_treino body s)) = secoes_treino s"
    by (simp add: post_treino_cases [OF b] el insert_treino_eq after_def)
  have put: "\<not> fails_next s \<longrightarrow> \<not> fails_next (advance s) \<longrightarrow>
          (\<exists>r \<in> set (treinos s). tr_id r = i) \<longrightarrow>
            (\<exists>row. fst (put_treino i body s) = (200, PTreino row) \<and>
               row \<in> set (treinos (after (put_treino i body s))) \<and> tr_id row = i) \<and>
            secoes_treino (after (put_treino i body s)) =
              filter (\<lambda>r. sc_treino_id r \<noteq> i) (secoes_treino s)"
  proof (intro impI)
    assume f1: "\<not> fails_next s" and f2: "\<not> fails_next (advance s)"
      and ex: "\<exists>r \<in> set (treinos s). tr_id r = i"
    from ex obtain r rs where fl: "filter (\<lambda>r. tr_id r = i) (treinos s) = r # rs"
      by (cases "filter (\<lambda>r. tr_id r = i) (treinos s)") (auto simp add: filter_empty_conv)
    then have "r \<in> set (filter (\<lambda>r. tr_id r = i) (treinos s))" by simp
    then have rin: "r \<in> set (treinos s)" "tr_id r = i" by auto
    have f2': "\<not> fails_next ((advance s)\<lparr>treinos :=
        map (\<lambda>r. if tr_id r = i then set_treino d ds ft (clock s) r else r) (treinos s)\<rparr>)"
      using f2 by (simp add: fails_next_def)
    have run: "put_treino i body s = ((200, PTreino (set_treino d ds ft (clock s) r)),
        (advance ((advance s)\<lparr>treinos :=
           map (\<lambda>r. if tr_id r = i then set_treino d ds ft (clock s) r else r) (treinos s)\<rparr>))
          \<lparr>secoes_treino := filter (\<lambda>r. sc_treino_id r \<noteq> i) (secoes_treino s)\<rparr>)"
      using f1 f2' fl by (simp add: put_treino_cases [OF b] el delete_secoes_eq)
    have "set_treino d ds ft (clock s) r \<in>
        (\<lambda>r. if tr_id r = i then set_treino d ds ft (clock s) r else r) ` set (treinos s)"
      using rin by force
    then show "(\<exists>row. fst (put_treino i body s) = (200, PTreino row) \<and>
               row \<in> set (treinos (after (put_treino i body s))) \<and> tr_id row = i) \<and>
            secoes_treino (after (put_treino i body s)) =
              filter (\<lambda>r. sc_treino_id r \<noteq> i) (secoes_treino s)"
      using rin by (simp add: run after_def)
  qed
  from post put show ?thesis by blast
qed

theorem non_array_secoes_skipped_witness:
  "js_get (JObj [(''data'', JStr ''2024-04-01''), (''secoes'', JStr ''nenhuma'')]) ''secoes'' =
     Inr (JStr ''nenhuma'') \<and>
   \<not> isArray (JStr ''nenhuma'') \<and>
   \<not> fails_next example_store \<and> \<not> fails_next (advance example_store) \<and>
   treinos_id_seq example_store \<notin> tr_id ` set (treinos example_store) \<and>
   status (post_treino (JObj [(''data'', JStr ''2024-04-01''), (''secoes'', JStr ''nenhuma'')])
     example_store) = 201 \<and>
   secoes_treino (after (post_treino
     (JObj [(''data'', JStr ''2024-04-01''), (''secoes'', JStr ''nenhuma'')]) example_store)) =
     [secao1, secao2, secao3, secao4] \<and>
   tr_id treino2 = 2 \<and>
   status (put_treino 2 (JObj [(''data'', JStr ''2024-04-01''), (''secoes'', JStr ''nenhuma'')])
     example_store) = 200 \<and>
   secoes_treino (after (put_treino 2
     (JObj [(''data'', JStr ''2024-04-01''), (''secoes'', JStr ''nenhuma'')]) example_store)) =
     [secao1, secao2, secao3]"
proof -
  define body where "body = JObj [(''data'', JStr ''2024-04-01''), (''secoes'', JStr ''nenhuma'')]"
  have h1: "js_get body ''secoes'' = Inr (JStr ''nenhuma'')" by (simp add: body_def)
  have h2: "\<not> isArray (JStr ''nenhuma'')" by simp
  have h3: "\<not> fails_next example_store" "\<not> fails_next (advance example_store)"
    by (simp_all add: fails_next_def advance_def example_store_def)
  have h4: "treinos_id_seq example_store \<notin> tr_id ` set (treinos example_store)"
    by (simp add: example_defs)
  have h5: "treino2 \<in> set (treinos example_store)" "tr_id treino2 = 2"
    by (simp_all add: example_defs)
  then have h6: "\<exists>r \<in> set (treinos example_store). tr_id r = 2" by blast
  have h7: "secoes_treino example_store = [secao1, secao2, secao3, secao4]"
    "filter (\<lambda>r. sc_treino_id r \<noteq> 2) (secoes_treino example_store) = [secao1, secao2, secao3]"
    by (simp_all add: example_defs)
  from non_array_secoes_skipped [OF h1 h2, of example_store 2] h3 h4 h6 h7
  have "status (post_treino body example_store) = 201 \<and>
        secoes_treino (after (post_treino body example_store)) = [secao1, secao2, secao3, secao4] \<and>
        status (put_treino 2 body example_store) = 200 \<and>
        secoes_treino (after (put_treino 2 body example_store)) = [secao1, secao2, secao3]"
    by (auto simp add: status_def)
  with h1 h2 h3 h4 h5 show ?thesis unfolding body_def by simp
qed

text \<open>
  C10. Whatever a \<^verbatim>\<open>PUT\<close> or a \<^verbatim>\<open>DELETE\<close> on \<^verbatim>\<open>/api/treinos/:id\<close> answers (200, 404 or
  500), the workout rows with another id and the section rows with another
  \<^verbatim>\<open>treino_id\<close> are the same afterwards, in the same order.
\<close>

theorem put_delete_frame:
  "filter (\<lambda>r. tr_id r \<noteq> i) (treinos (after (put_treino i body s))) =
     filter (\<lambda>r. tr_id r \<noteq> i) (treinos s) \<and>
   filter (\<lambda>r. sc_treino_id r \<noteq> i) (secoes_treino (after (put_treino i body s))) =
     filter (\<lambda>r. sc_treino_id r \<noteq> i) (secoes_treino s) \<and>
   filter (\<lambda>r. tr_id r \<noteq> i) (treinos (after (delete_treino i s))) =
     filter (\<lambda>r. tr_id r \<noteq> i) (treinos s) \<and>
   filter (\<lambda>r. sc_treino_id r \<noteq> i) (secoes_treino (after (delete_treino i s))) =
     filter (\<lambda>r. sc_treino_id r \<noteq> i) (secoes_treino s)"
  using put_treino_frame [of i body s]
  by (simp add: delete_treino_cases after_def)

theorem put_delete_frame_witness:
  "filter (\<lambda>r. tr_id r \<noteq> 1) (treinos (after (put_treino 1 example_body example_store))) =
     [treino2, treino3] \<and>
   filter (\<lambda>r. sc_treino_id r \<noteq> 1)
     (secoes_treino (after (put_treino 1 example_body example_store))) = [secao4] \<and>
   filter (\<lambda>r. tr_id r \<noteq> 1) (treinos (after (delete_treino 1 example_store))) =
     [treino2, treino3] \<and>
   filter (\<lambda>r. sc_treino_id r \<noteq> 1) (secoes_treino (after (delete_treino 1 example_store))) =
     [secao4]"
proof -
  have "filter (\<lambda>r. tr_id r \<noteq> 1) (treinos example_store) = [treino2, treino3]"
    "filter (\<lambda>r. sc_treino_id r \<noteq> 1) (secoes_treino example_store) = [secao4]"
    by (simp_all add: example_defs)
  with put_delete_frame [of 1 example_body example_store] show ?thesis by simp
qed


end
